theory Spec2Isabelle
  imports
    Complex_Main
    "HOL-Library.Char_ord"
    "HOL-Library.List_Lexorder"
    "HOL-Library.Log_Nat"
    "HOL-Library.Product_Lexorder"
    "HOL-Library.Sublist"
begin

section \<open>Python values used by the pipeline\<close>

text \<open>
  The pipeline is a sequence of pandas scripts (census cleaning, product cleaning and the
  ZIP merge). A Python \<open>str\<close> is modelled as a \<^typ>\<open>string\<close> whose characters are the
  code points below 256; on this range \<open>\d\<close> is \<open>0-9\<close>, \<open>[a-zA-Z]\<close> is the ASCII
  letters, and \<open>str.lower\<close> maps \<open>A-Z\<close> and the Latin-1 capitals to their small forms.
  Exceptions are values of \<open>py_error\<close>.
\<close>

datatype py_error = AttributeError | ValueError

definition is_digit :: "char \<Rightarrow> bool" where
  "is_digit c = (CHR ''0'' \<le> c \<and> c \<le> CHR ''9'')"

definition is_alpha :: "char \<Rightarrow> bool" where
  "is_alpha c = ((CHR ''a'' \<le> c \<and> c \<le> CHR ''z'') \<or> (CHR ''A'' \<le> c \<and> c \<le> CHR ''Z''))"

definition is_space :: "char \<Rightarrow> bool" where
  \<comment> \<open>\<open>str.isspace\<close> below 256: TAB..CR, FS..US, space, NEL and NBSP.\<close>
  "is_space c =
     (let n = (of_char c :: nat)
      in (9 \<le> n \<and> n \<le> 13) \<or> (28 \<le> n \<and> n \<le> 32) \<or> n = 133 \<or> n = 160)"

definition py_lower_char :: "char \<Rightarrow> char" where
  "py_lower_char c =
     (let n = (of_char c :: nat)
      in if (65 \<le> n \<and> n \<le> 90) \<or> (192 \<le> n \<and> n \<le> 222 \<and> n \<noteq> 215)
         then char_of (n + 32) else c)"

definition py_lower :: "string \<Rightarrow> string" where
  "py_lower s = map py_lower_char s"

definition py_strip :: "string \<Rightarrow> string" where
  "py_strip s = rev (dropWhile is_space (rev (dropWhile is_space s)))"

text \<open>\<open>needle in haystack\<close> on strings: the needle occurs as a contiguous block.\<close>

fun py_in :: "string \<Rightarrow> string \<Rightarrow> bool" where
  "py_in needle [] = (needle = [])"
| "py_in needle (c # cs) = (prefix needle (c # cs) \<or> py_in needle cs)"

text \<open>
  \<open>str.zfill(width)\<close>: a string at least \<open>width\<close> long is returned as it is; otherwise
  zeros are inserted on the left, after a leading sign \<open>+\<close> or \<open>-\<close> when there is one.
\<close>

definition zfill :: "nat \<Rightarrow> string \<Rightarrow> string" where
  "zfill width s =
     (if width \<le> length s then s
      else (case s of
              [] \<Rightarrow> replicate width CHR ''0''
            | c # cs \<Rightarrow>
                if c = CHR ''+'' \<or> c = CHR ''-''
                then c # replicate (width - length s) CHR ''0'' @ cs
                else replicate (width - length s) CHR ''0'' @ s))"

section \<open>Product Cleaner\<close>

subsection \<open>Location ID padding\<close>

definition pad_location_id :: "string \<Rightarrow> string" where
  "pad_location_id location_id = zfill 8 location_id"

definition starts_with_sign :: "string \<Rightarrow> bool" where
  "starts_with_sign s = (case s of [] \<Rightarrow> False | c # _ \<Rightarrow> c = CHR ''+'' \<or> c = CHR ''-'')"

subsection \<open>Category classification\<close>

text \<open>
  A cell of a text column read by \<open>pd.read_csv\<close> is a string, or missing (\<open>NaN\<close>, a
  float): \<^typ>\<open>string option\<close>. \<open>classify_product\<close> calls \<open>description.lower()\<close>,
  which a float does not have.
\<close>

definition classify_product :: "string option \<Rightarrow> py_error + string" where
  "classify_product description =
     (case description of
        None \<Rightarrow> Inl AttributeError
      | Some d \<Rightarrow>
          (let desc = py_lower d
           in if py_in ''egg'' desc then Inr ''Egg''
              else if py_in ''bread'' desc then Inr ''Bread''
              else Inr ''Other''))"

subsection \<open>Size parsing\<close>

text \<open>\<open>str(size)\<close>: a missing cell prints as \<open>nan\<close>.\<close>

definition py_str :: "string option \<Rightarrow> string" where
  "py_str cell = (case cell of None \<Rightarrow> ''nan'' | Some s \<Rightarrow> s)"

definition is_qchar :: "char \<Rightarrow> bool" where
  \<comment> \<open>the character class \<open>[\d\.]\<close>\<close>
  "is_qchar c = (is_digit c \<or> c = CHR ''.'')"

definition quantity_token :: "string \<Rightarrow> string" where
  \<comment> \<open>\<open>re.search(r'([\d\.]+)', s)\<close>: the leftmost, longest run of digits and dots;
      empty when there is no match\<close>
  "quantity_token s = takeWhile is_qchar (dropWhile (\<lambda>c. \<not> is_qchar c) s)"

definition digits_value :: "string \<Rightarrow> nat" where
  "digits_value ds = foldl (\<lambda>a c. 10 * a + (of_char c - 48)) 0 ds"

definition decimal_value :: "string \<Rightarrow> rat" where
  "decimal_value tok =
     (let ip = takeWhile (\<lambda>c. c \<noteq> CHR ''.'') tok;
          fp = drop 1 (dropWhile (\<lambda>c. c \<noteq> CHR ''.'') tok)
      in of_nat (digits_value ip) + of_nat (digits_value fp) / 10 ^ length fp)"

text \<open>
  \<open>float(tok)\<close> for a token of digits and dots: it is a decimal literal when it has at
  least one digit and at most one dot, and \<open>float\<close> raises \<open>ValueError\<close> otherwise.
  The value is the exact decimal; Python rounds it to the nearest binary64.
\<close>

definition py_float :: "string \<Rightarrow> py_error + rat" where
  "py_float tok =
     (if filter is_digit tok \<noteq> [] \<and> length (filter (\<lambda>c. c = CHR ''.'') tok) \<le> 1
      then Inr (decimal_value tok) else Inl ValueError)"

definition extract_quantity :: "string option \<Rightarrow> py_error + rat" where
  "extract_quantity size_cell =
     (let tok = quantity_token (py_str size_cell)
      in if tok \<noteq> [] then py_float tok else Inr (- 1))"

definition newline :: char where
  "newline = CHR 0x0A"

definition dot_star_eol :: "string \<Rightarrow> string option" where
  \<comment> \<open>\<open>.*$\<close> at the start of \<open>s\<close>: \<open>.\<close> is any character but a newline, \<open>$\<close> is
      the end of the string or the place before a final newline\<close>
  "dot_star_eol s =
     (let body = takeWhile (\<lambda>c. c \<noteq> newline) s;
          rest = dropWhile (\<lambda>c. c \<noteq> newline) s
      in if rest = [] \<or> rest = [newline] then Some body else None)"

fun search_uom :: "string \<Rightarrow> string option" where
  \<comment> \<open>\<open>re.search(r'[a-zA-Z]+.*$', s)\<close>: the leftmost position where the pattern matches\<close>
  "search_uom [] = None"
| "search_uom (c # cs) =
     (if is_alpha c
      then (case dot_star_eol (c # cs) of Some m \<Rightarrow> Some m | None \<Rightarrow> search_uom cs)
      else search_uom cs)"

definition extract_uom :: "string option \<Rightarrow> string" where
  "extract_uom size_cell =
     (case search_uom (py_str size_cell) of Some m \<Rightarrow> py_strip m | None \<Rightarrow> ''unit'')"

subsection \<open>Floating-point columns\<close>

text \<open>
  A numeric column is float64. A finite cell \<open>Fin q\<close> stands for the binary64 value
  nearest to the rational \<open>q\<close>; beside the finite values there are the two infinities
  and \<open>NaN\<close>, which is also how pandas stores a missing number. Division follows
  numpy: no exception, a non-zero value over zero is an infinity and zero over zero is
  \<open>NaN\<close>. Sums and quotients are written exactly; the rounding to binary64 is
  written out where a later step depends on it (\<open>round2\<close> below).
\<close>

datatype fval = Fin rat | PosInf | NegInf | NaN

fun fdiv :: "fval \<Rightarrow> fval \<Rightarrow> fval" where
  "fdiv NaN _ = NaN"
| "fdiv _ NaN = NaN"
| "fdiv (Fin a) (Fin b) =
     (if b = 0 then (if a = 0 then NaN else if 0 < a then PosInf else NegInf)
      else Fin (a / b))"
| "fdiv (Fin a) PosInf = Fin 0"
| "fdiv (Fin a) NegInf = Fin 0"
| "fdiv PosInf (Fin b) = (if 0 \<le> b then PosInf else NegInf)"
| "fdiv NegInf (Fin b) = (if 0 \<le> b then NegInf else PosInf)"
| "fdiv PosInf PosInf = NaN"
| "fdiv PosInf NegInf = NaN"
| "fdiv NegInf PosInf = NaN"
| "fdiv NegInf NegInf = NaN"

fun fadd :: "fval \<Rightarrow> fval \<Rightarrow> fval" where
  "fadd NaN _ = NaN"
| "fadd _ NaN = NaN"
| "fadd (Fin a) (Fin b) = Fin (a + b)"
| "fadd (Fin a) PosInf = PosInf"
| "fadd (Fin a) NegInf = NegInf"
| "fadd PosInf (Fin b) = PosInf"
| "fadd NegInf (Fin b) = NegInf"
| "fadd PosInf PosInf = PosInf"
| "fadd NegInf NegInf = NegInf"
| "fadd PosInf NegInf = NaN"
| "fadd NegInf PosInf = NaN"

definition fillna0 :: "fval \<Rightarrow> fval" where
  \<comment> \<open>\<open>fillna(0)\<close> replaces \<open>NaN\<close> only; an infinity is not a missing value\<close>
  "fillna0 x = (case x of NaN \<Rightarrow> Fin 0 | _ \<Rightarrow> x)"

subsection \<open>The cleaning script\<close>

text \<open>
  A raw product row. A price cell is the number \<open>pd.to_numeric(errors="coerce")\<close> reads
  from it, or \<open>None\<close> when the cell is missing or not numeric (the coercion gives
  \<open>NaN\<close>). The date is the text of the cell.
\<close>

record raw_product =
  Product_ID :: string
  Location_ID :: string
  Description :: "string option"
  Brand :: "string option"
  Size :: "string option"
  Regular_Price :: "rat option"
  Promo_Price :: "rat option"
  Stock_Level :: "string option"
  Date_Retrieved :: "string option"

record clean_product =
  cProduct_ID :: string
  cLocation_ID :: string
  cDescription :: "string option"
  cBrand :: "string option"
  cSize :: "string option"
  cRegular_Price :: rat
  cPromo_Price :: rat
  cStock_Level :: "string option"
  cDate_Retrieved :: "string option"
  cProduct_Category :: string
  cQuantity :: rat
  cUOM :: string
  cPrice_per_Unit :: fval
  cPromo_Price_per_Unit :: fval

text \<open>
  \<open>Series.apply(f)\<close> calls \<open>f\<close> on the cells from the first row down; the first
  exception ends the script.
\<close>

fun series_apply :: "('a \<Rightarrow> py_error + 'b) \<Rightarrow> 'a list \<Rightarrow> py_error + 'b list" where
  "series_apply f [] = Inr []"
| "series_apply f (x # xs) =
     (case f x of
        Inl e \<Rightarrow> Inl e
      | Inr v \<Rightarrow> (case series_apply f xs of Inl e \<Rightarrow> Inl e | Inr vs \<Rightarrow> Inr (v # vs)))"

definition process_size :: "string option list \<Rightarrow> py_error + (rat \<times> string) list" where
  \<comment> \<open>the columns \<open>Quantity\<close> and \<open>UOM\<close> computed from the column \<open>Size\<close>\<close>
  "process_size sizes =
     (case series_apply extract_quantity sizes of
        Inl e \<Rightarrow> Inl e
      | Inr quantities \<Rightarrow> Inr (zip quantities (map extract_uom sizes)))"

definition to_numeric_fillna0 :: "rat option \<Rightarrow> rat" where
  \<comment> \<open>\<open>pd.to_numeric(col, errors="coerce").fillna(0)\<close>\<close>
  "to_numeric_fillna0 cell = (case cell of None \<Rightarrow> 0 | Some p \<Rightarrow> p)"

definition derive_columns :: "raw_product \<Rightarrow> string \<Rightarrow> rat \<Rightarrow> string \<Rightarrow> clean_product" where
  "derive_columns r category quantity uom =
     \<lparr> cProduct_ID = Product_ID r,
       cLocation_ID = pad_location_id (Location_ID r),
       cDescription = Description r,
       cBrand = Brand r,
       cSize = Size r,
       cRegular_Price = to_numeric_fillna0 (Regular_Price r),
       cPromo_Price = to_numeric_fillna0 (Promo_Price r),
       cStock_Level = Stock_Level r,
       cDate_Retrieved = Date_Retrieved r,
       cProduct_Category = category,
       cQuantity = quantity,
       cUOM = uom,
       cPrice_per_Unit = fdiv (Fin (to_numeric_fillna0 (Regular_Price r))) (Fin quantity),
       cPromo_Price_per_Unit = fdiv (Fin (to_numeric_fillna0 (Promo_Price r))) (Fin quantity) \<rparr>"

definition inactive_items_mask :: "clean_product \<Rightarrow> bool" where
  \<comment> \<open>\<open>.str.lower()\<close> of a missing cell is missing, and compares unequal\<close>
  "inactive_items_mask c =
     ((case cStock_Level c of None \<Rightarrow> False | Some s \<Rightarrow> py_lower s = ''unknown'')
      \<and> cRegular_Price c = 0 \<and> cPromo_Price c = 0)"

text \<open>\<open>drop_duplicates(subset=...)\<close> keeps the first row of every key.\<close>

fun drop_duplicates_seen :: "('a \<Rightarrow> 'k) \<Rightarrow> 'k list \<Rightarrow> 'a list \<Rightarrow> 'a list" where
  "drop_duplicates_seen key seen [] = []"
| "drop_duplicates_seen key seen (x # xs) =
     (if key x \<in> set seen then drop_duplicates_seen key seen xs
      else x # drop_duplicates_seen key (key x # seen) xs)"

definition drop_duplicates :: "('a \<Rightarrow> 'k) \<Rightarrow> 'a list \<Rightarrow> 'a list" where
  "drop_duplicates key xs = drop_duplicates_seen key [] xs"

definition observation_key :: "clean_product \<Rightarrow> string \<times> string \<times> string option" where
  "observation_key c = (cProduct_ID c, cLocation_ID c, cDate_Retrieved c)"

text \<open>
  The script either raises, or returns \<open>None\<close> (an empty input), or returns the
  cleaned table. Reading and writing the CSV files is not modelled.
\<close>

datatype 'a outcome = Raises py_error | Returns_None | Returns 'a

definition clean_product_data :: "raw_product list \<Rightarrow> clean_product list outcome" where
  "clean_product_data df =
     (if df = [] then Returns_None
      else (case series_apply classify_product (map Description df) of
              Inl e \<Rightarrow> Raises e
            | Inr categories \<Rightarrow>
                (case process_size (map Size df) of
                   Inl e \<Rightarrow> Raises e
                 | Inr sized \<Rightarrow>
                     (let derived = map (\<lambda>(r, category, quantity, uom).
                                           derive_columns r category quantity uom)
                                        (zip df (zip categories sized));
                          active = filter (\<lambda>c. \<not> inactive_items_mask c) derived
                      in Returns (drop_duplicates observation_key active)))))"

subsection \<open>Reference definitions for the cleaning properties\<close>

text \<open>The trailing alphabetic run of a string: its longest suffix of ASCII letters.\<close>

definition spec_trailing_alphabetic_run :: "string \<Rightarrow> string" where
  "spec_trailing_alphabetic_run s = rev (takeWhile is_alpha (rev s))"

text \<open>
  The row that the column assignments of \<open>clean_product_data\<close> build from a raw row
  when neither \<open>classify_product\<close> nor \<open>extract_quantity\<close> raises on it.
\<close>

definition cleaned_row :: "raw_product \<Rightarrow> clean_product" where
  "cleaned_row r =
     derive_columns r (projr (classify_product (Description r)))
       (projr (extract_quantity (Size r))) (extract_uom (Size r))"

text \<open>
  The exclusion rule in terms of the raw row: the stock level is \<open>unknown\<close> in some
  casing, and both prices are 0 once normalised.
\<close>

definition spec_inactive :: "raw_product \<Rightarrow> bool" where
  "spec_inactive r =
     ((case Stock_Level r of None \<Rightarrow> False | Some s \<Rightarrow> py_lower s = ''unknown'')
      \<and> to_numeric_fillna0 (Regular_Price r) = 0
      \<and> to_numeric_fillna0 (Promo_Price r) = 0)"

text \<open>Sample raw rows used to evaluate the cleaning script.\<close>

definition egg_row :: raw_product where
  "egg_row =
     \<lparr> Product_ID = ''0001111060903'', Location_ID = ''9700336'',
       Description = Some ''Kroger Grade A Large Eggs'', Brand = Some ''Kroger'',
       Size = Some ''12 ct'', Regular_Price = Some 5, Promo_Price = Some 0,
       Stock_Level = Some ''Unknown'', Date_Retrieved = Some ''2025-02-01'' \<rparr>"

definition bread_row :: raw_product where
  "bread_row =
     \<lparr> Product_ID = ''0001111008485'', Location_ID = ''9700336'',
       Description = Some ''Kroger White Bread'', Brand = Some ''Kroger'',
       Size = Some ''20 oz'', Regular_Price = None, Promo_Price = Some 0,
       Stock_Level = Some ''UNKNOWN'', Date_Retrieved = Some ''2025-02-01'' \<rparr>"

section \<open>Census Normalizer\<close>

text \<open>
  One row of \<open>cleaned_census_data.csv\<close>: the ZIP code, and the numeric columns as
  float cells (a missing number is \<open>NaN\<close>).
\<close>

record census_row =
  ZIP_Code :: string
  Total_Population :: fval
  Poverty_Count :: fval
  Median_Household_Income :: fval
  SNAP_Households :: fval
  White_Population :: fval
  Black_Population :: fval
  American_Indian_Population :: fval
  Asian_Population :: fval
  Pacific_Islander_Population :: fval
  Other_Race_Population :: fval
  Two_or_More_Races_Population :: fval
  High_School_Graduate :: fval
  Bachelors_Degree :: fval
  Masters_Degree :: fval
  Doctorate_Degree :: fval

record census_pct =
  pZIP_Code :: string
  pTotal_Population :: fval
  pMedian_Household_Income :: fval
  Poverty_Rate_pct :: fval
  SNAP_Participation_pct :: fval
  White_Population_pct :: fval
  Black_Population_pct :: fval
  American_Indian_Population_pct :: fval
  Asian_Population_pct :: fval
  Other_Race_Population_pct :: fval
  Two_or_More_Races_pct :: fval
  High_School_Graduate_pct :: fval
  Bachelors_Degree_pct :: fval
  Masters_Degree_pct :: fval
  Doctorate_Degree_pct :: fval

text \<open>
  The percentage columns are computed first, the count columns are dropped, and
  \<open>fillna(0)\<close> then runs over every remaining column.
\<close>

definition process_census_row :: "census_row \<Rightarrow> census_pct" where
  "process_census_row r =
     (let total = Total_Population r
      in \<lparr> pZIP_Code = ZIP_Code r,
           pTotal_Population = fillna0 total,
           pMedian_Household_Income = fillna0 (Median_Household_Income r),
           Poverty_Rate_pct = fillna0 (fdiv (Poverty_Count r) total),
           SNAP_Participation_pct = fillna0 (fdiv (SNAP_Households r) total),
           White_Population_pct = fillna0 (fdiv (White_Population r) total),
           Black_Population_pct = fillna0 (fdiv (Black_Population r) total),
           American_Indian_Population_pct = fillna0 (fdiv (American_Indian_Population r) total),
           Asian_Population_pct = fillna0 (fdiv (Asian_Population r) total),
           Other_Race_Population_pct =
             fillna0 (fdiv (fadd (Other_Race_Population r) (Pacific_Islander_Population r)) total),
           Two_or_More_Races_pct = fillna0 (fdiv (Two_or_More_Races_Population r) total),
           High_School_Graduate_pct = fillna0 (fdiv (High_School_Graduate r) total),
           Bachelors_Degree_pct = fillna0 (fdiv (Bachelors_Degree r) total),
           Masters_Degree_pct = fillna0 (fdiv (Masters_Degree r) total),
           Doctorate_Degree_pct = fillna0 (fdiv (Doctorate_Degree r) total) \<rparr>)"

definition process_census_data :: "census_row list \<Rightarrow> census_pct list" where
  "process_census_data census_df = map process_census_row census_df"

text \<open>
  The twelve percentage fields of an output row, and in the same order the raw count
  each of them is computed from (for the Other Race field, the sum of the Other Race and
  Pacific Islander counts).
\<close>

definition percentage_fields :: "census_pct \<Rightarrow> fval list" where
  "percentage_fields p =
     [Poverty_Rate_pct p, SNAP_Participation_pct p, White_Population_pct p,
      Black_Population_pct p, American_Indian_Population_pct p, Asian_Population_pct p,
      Other_Race_Population_pct p, Two_or_More_Races_pct p, High_School_Graduate_pct p,
      Bachelors_Degree_pct p, Masters_Degree_pct p, Doctorate_Degree_pct p]"

definition raw_counts :: "census_row \<Rightarrow> fval list" where
  "raw_counts r =
     [Poverty_Count r, SNAP_Households r, White_Population r,
      Black_Population r, American_Indian_Population r, Asian_Population r,
      fadd (Other_Race_Population r) (Pacific_Islander_Population r),
      Two_or_More_Races_Population r, High_School_Graduate r,
      Bachelors_Degree r, Masters_Degree r, Doctorate_Degree r]"

definition in_unit_interval :: "fval \<Rightarrow> bool" where
  "in_unit_interval x = (case x of Fin q \<Rightarrow> 0 \<le> q \<and> q \<le> 1 | _ \<Rightarrow> False)"

definition is_count_of :: "rat \<Rightarrow> fval \<Rightarrow> bool" where
  \<comment> \<open>a count of part of a population of \<open>t\<close>\<close>
  "is_count_of t c = (case c of Fin n \<Rightarrow> 0 \<le> n \<and> n \<le> t | _ \<Rightarrow> False)"

text \<open>Sample census rows: the row of ZIP 00601, and rows with a count above the total.\<close>

definition census_00601 :: census_row where
  "census_00601 =
     \<lparr> ZIP_Code = ''00601'', Total_Population = Fin 16721, Poverty_Count = Fin 10199,
       Median_Household_Income = Fin 18571, SNAP_Households = Fin 3219,
       White_Population = Fin 13904, Black_Population = Fin 314,
       American_Indian_Population = Fin 7, Asian_Population = Fin 19,
       Pacific_Islander_Population = Fin 0, Other_Race_Population = Fin 1120,
       Two_or_More_Races_Population = Fin 1357, High_School_Graduate = Fin 3356,
       Bachelors_Degree = Fin 1678, Masters_Degree = Fin 408, Doctorate_Degree = Fin 15 \<rparr>"

definition census_empty_zip :: census_row where
  "census_empty_zip =
     \<lparr> ZIP_Code = ''99950'', Total_Population = Fin 0, Poverty_Count = Fin 0,
       Median_Household_Income = NaN, SNAP_Households = Fin 0,
       White_Population = Fin 0, Black_Population = Fin 0,
       American_Indian_Population = Fin 0, Asian_Population = Fin 0,
       Pacific_Islander_Population = Fin 0, Other_Race_Population = Fin 0,
       Two_or_More_Races_Population = Fin 0, High_School_Graduate = Fin 0,
       Bachelors_Degree = Fin 0, Masters_Degree = Fin 0, Doctorate_Degree = Fin 0 \<rparr>"

section \<open>Temporal Aggregator\<close>

text \<open>
  A row of the cleaned product table as the merge script reads it, after
  \<open>pd.to_datetime\<close>: the date is a point in time (\<open>None\<close> is \<open>NaT\<close>, a missing date).
  \<open>groupby\<close> leaves out rows with a missing key column, so the seven key columns are
  present in every row of the model.
\<close>

record observation =
  oProduct_ID :: string
  oLocation_ID :: string
  oQuantity :: rat
  oUOM :: string
  oBrand :: string
  oProduct_Category :: string
  oDescription :: string
  oDate_Retrieved :: "int option"
  oPrice_per_Unit :: fval
  oPromo_Price_per_Unit :: fval
  oPromo_Price :: fval

type_synonym group_key = "string \<times> string \<times> rat \<times> string \<times> string \<times> string \<times> string"

definition group_key_of :: "observation \<Rightarrow> group_key" where
  "group_key_of ob =
     (oProduct_ID ob, oLocation_ID ob, oQuantity ob, oUOM ob, oBrand ob,
      oProduct_Category ob, oDescription ob)"

record product_aggregate =
  aKey :: group_key
  Most_Recent_Date :: "int option"
  Most_Recent_Price :: fval
  Promo_Observations :: nat
  Total_Observations :: nat
  Promo_Frequency :: fval

definition gt_zero :: "fval \<Rightarrow> bool" where
  \<comment> \<open>\<open>x > 0\<close> on a float column; \<open>NaN > 0\<close> is false\<close>
  "gt_zero x = (case x of Fin q \<Rightarrow> 0 < q | PosInf \<Rightarrow> True | _ \<Rightarrow> False)"

definition max_date :: "int option list \<Rightarrow> int option" where
  \<comment> \<open>the aggregation \<open>max\<close> skips missing dates\<close>
  "max_date ds =
     (case [d. Some d \<leftarrow> ds] of [] \<Rightarrow> None | d # rest \<Rightarrow> Some (fold max rest d))"

definition round_half_even :: "rat \<Rightarrow> int" where
  \<comment> \<open>\<open>rint\<close>: the nearest integer, a tie going to the even one\<close>
  "round_half_even x =
     (let f = \<lfloor>x\<rfloor>; d = x - of_int f
      in if d < 1 / 2 then f else if 1 / 2 < d then f + 1 else if even f then f else f + 1)"

definition binary_exponent :: "rat \<Rightarrow> int" where
  \<comment> \<open>for \<open>0 < a\<close>, the \<open>e\<close> with \<open>2 ^ e \<le> a < 2 ^ (e + 1)\<close>\<close>
  "binary_exponent a =
     (let (n, d) = quotient_of a; e0 = bitlen n - bitlen d
      in if power_int 2 e0 \<le> a then e0 else e0 - 1)"

definition binary64 :: "rat \<Rightarrow> rat" where
  \<comment> \<open>the binary64 value nearest to \<open>q\<close>: 53 significant bits, a tie going to the even
      significand (for a magnitude in the normal range of the format)\<close>
  "binary64 q =
     (if q = 0 then 0
      else (let s = power_int 2 (52 - binary_exponent \<bar>q\<bar>)
            in sgn q * of_int (round_half_even (\<bar>q\<bar> * s)) / s))"

definition round2 :: "fval \<Rightarrow> fval" where
  \<comment> \<open>\<open>.round(2)\<close> is numpy's \<open>rint(x * 100) / 100\<close> in binary64: the cell \<open>x\<close> is
      the binary64 nearest to \<open>q\<close>, its product with 100 is rounded to binary64, and the
      result is the binary64 nearest to the hundredth obtained; an infinity and \<open>NaN\<close>
      are unchanged\<close>
  "round2 x =
     (case x of
        Fin q \<Rightarrow> Fin (of_int (round_half_even (binary64 (binary64 q * 100))) / 100)
      | _ \<Rightarrow> x)"

text \<open>
  The aggregations of one group, whose rows \<open>g\<close> are in the order of the input table.
  \<open>Most_Recent_Price\<close> is \<open>x.iloc[-1]\<close>, the last row of the group;
  \<open>Total_Observations\<close> is the aggregation \<open>count\<close> on the date column, the number of
  rows whose date is not missing. The two \<open>fillna\<close> calls after the aggregation are
  included. The mean, promo mean and standard deviation columns are left out: no other
  column is computed from them.
\<close>

definition aggregate_group :: "group_key \<Rightarrow> observation list \<Rightarrow> product_aggregate" where
  "aggregate_group k g =
     (let promo_observations = length (filter (\<lambda>ob. gt_zero (oPromo_Price ob)) g);
          total_observations = length (filter (\<lambda>ob. oDate_Retrieved ob \<noteq> None) g)
      in \<lparr> aKey = k,
           Most_Recent_Date = max_date (map oDate_Retrieved g),
           Most_Recent_Price = fillna0 (if g \<noteq> [] then oPrice_per_Unit (last g) else NaN),
           Promo_Observations = promo_observations,
           Total_Observations = total_observations,
           Promo_Frequency =
             round2 (fillna0 (fdiv (Fin (of_nat promo_observations)) (Fin (of_nat total_observations)))) \<rparr>)"

definition group_rows :: "group_key \<Rightarrow> observation list \<Rightarrow> observation list" where
  "group_rows k product_df = filter (\<lambda>ob. group_key_of ob = k) product_df"

definition product_grouped_df :: "observation list \<Rightarrow> product_aggregate list" where
  \<comment> \<open>\<open>groupby\<close> yields one group per key that occurs, in sorted key order\<close>
  "product_grouped_df product_df =
     map (\<lambda>k. aggregate_group k (group_rows k product_df))
         (sort (remdups (map group_key_of product_df)))"

text \<open>
  Sample observations of one product at one store: a price of 5 per unit retrieved on
  2 February and a price of 3 per unit retrieved on 1 February (dates written as the
  numbers 20250202 and 20250201),
  and an observation on promotion whose date is missing.
\<close>

definition obs_feb2 :: observation where
  "obs_feb2 =
     \<lparr> oProduct_ID = ''0001111060903'', oLocation_ID = ''09700336'', oQuantity = 12,
       oUOM = ''ct'', oBrand = ''Kroger'', oProduct_Category = ''Egg'',
       oDescription = ''Kroger Grade A Large Eggs'', oDate_Retrieved = Some 20250202,
       oPrice_per_Unit = Fin 5, oPromo_Price_per_Unit = Fin 0, oPromo_Price = Fin 0 \<rparr>"

definition obs_feb1 :: observation where
  "obs_feb1 = obs_feb2 \<lparr> oDate_Retrieved := Some 20250201, oPrice_per_Unit := Fin 3 \<rparr>"

definition obs_undated_promo :: observation where
  "obs_undated_promo = obs_feb2 \<lparr> oDate_Retrieved := None, oPromo_Price := Fin (199 / 100) \<rparr>"

definition obs_promo :: observation where
  "obs_promo = obs_feb1 \<lparr> oPromo_Price := Fin (199 / 100) \<rparr>"

definition promo_history :: "observation list" where
  "promo_history = [obs_promo, obs_feb2, obs_feb2]"

section \<open>Keyword Extractor\<close>

text \<open>\<open>str.split()\<close>: the maximal runs of characters that are not whitespace.\<close>

fun split_from :: "string \<Rightarrow> string \<Rightarrow> string list" where
  "split_from cur [] = (if cur = [] then [] else [cur])"
| "split_from cur (c # cs) =
     (if is_space c then (if cur = [] then split_from [] cs else cur # split_from [] cs)
      else split_from (cur @ [c]) cs)"

definition py_split :: "string \<Rightarrow> string list" where
  "py_split s = split_from [] s"

definition description_list :: "string \<Rightarrow> string list" where
  \<comment> \<open>the column \<open>Description List\<close>: \<open>.str.lower().str.split()\<close>\<close>
  "description_list description = py_split (py_lower description)"

definition clean_keyword :: "string \<Rightarrow> string option" where
  "clean_keyword word =
     (let word' = py_lower (filter is_alpha word)
      in if word' \<in> set [''egg'', ''eggs'', ''bread''] then None else Some word')"

definition truthy :: "string option \<Rightarrow> bool" where
  \<comment> \<open>\<open>None\<close> and the empty string are false in a condition\<close>
  "truthy w = (case w of None \<Rightarrow> False | Some s \<Rightarrow> s \<noteq> [])"

definition cleaned_words :: "string list \<Rightarrow> string list" where
  \<comment> \<open>\<open>[clean_keyword(word) for word in word_list if clean_keyword(word)]\<close>\<close>
  "cleaned_words word_list =
     map (\<lambda>word. the (clean_keyword word)) (filter (\<lambda>word. truthy (clean_keyword word)) word_list)"

definition keyword_list :: "string list list \<Rightarrow> string list" where
  "keyword_list description_lists =
     (let category_list = concat (map cleaned_words description_lists)
      in if category_list \<noteq> [] then category_list else [''other''])"

definition location_category :: "product_aggregate \<Rightarrow> string \<times> string" where
  "location_category a = (case aKey a of (pid, lid, q, uom, brand, cat, desc) \<Rightarrow> (lid, cat))"

definition description_of :: "product_aggregate \<Rightarrow> string" where
  "description_of a = (case aKey a of (pid, lid, q, uom, brand, cat, desc) \<Rightarrow> desc)"

definition keyword_summary :: "product_aggregate list \<Rightarrow> ((string \<times> string) \<times> string list) list" where
  \<comment> \<open>one row per (Location ID, Product Category), with the column \<open>Keyword_Lists\<close>\<close>
  "keyword_summary grouped =
     map (\<lambda>k. (k, keyword_list
                    (map (\<lambda>a. description_list (description_of a))
                         (filter (\<lambda>a. location_category a = k) grouped))))
         (sort (remdups (map location_category grouped)))"

subsection \<open>Reference definitions for the keyword properties\<close>

text \<open>
  The tokens of a list of descriptions that survive cleaning, as the contract words it:
  lowercase each description and split it at whitespace, strip the non-alphabetic
  characters of each token, and discard the empty tokens and the words \<open>egg\<close>,
  \<open>eggs\<close> and \<open>bread\<close>. The frequency mapping of these tokens pairs every distinct
  token, in the order of first occurrence, with its number of occurrences.
\<close>

definition spec_surviving_tokens :: "string list \<Rightarrow> string list" where
  "spec_surviving_tokens descriptions =
     filter (\<lambda>t. t \<noteq> [] \<and> t \<noteq> ''egg'' \<and> t \<noteq> ''eggs'' \<and> t \<noteq> ''bread'')
       (map (\<lambda>w. py_lower (filter is_alpha w))
          (concat (map (\<lambda>d. py_split (py_lower d)) descriptions)))"

definition spec_keyword_frequency :: "string list \<Rightarrow> (string \<times> nat) list" where
  "spec_keyword_frequency descriptions =
     (let toks = spec_surviving_tokens descriptions
      in map (\<lambda>t. (t, count_list toks t)) (rev (remdups (rev toks))))"

definition descriptions_of_group :: "string \<times> string \<Rightarrow> product_aggregate list \<Rightarrow> string list" where
  "descriptions_of_group k grouped =
     map description_of (filter (\<lambda>a. location_category a = k) grouped)"

definition egg_descriptions :: "string list" where
  "egg_descriptions = [''Kroger Large Eggs'', ''Kroger Brown Eggs'']"

section \<open>Spatial/ZIP Joiner\<close>

text \<open>
  The tables of the merge script are keyed by ZIP code: a row is its ZIP code and the
  cells of its other columns. A cell is a number, a text, a dictionary of counts, a
  geometry, or missing; \<open>isna\<close> holds of a missing object and of the float \<open>NaN\<close>.
\<close>

datatype cell = Missing | Number fval | Text string | Counts "(string \<times> nat) list" | Geometry nat

type_synonym zip_table = "(string \<times> cell list) list"

definition isna :: "cell \<Rightarrow> bool" where
  "isna c = (c = Missing \<or> c = Number NaN)"

text \<open>
  \<open>left.merge(right, on="ZIP Code", how="left")\<close>: every left row, in order, once for
  each right row of its ZIP code, and once with the right columns missing when there is
  none. \<open>right_width\<close> is the number of columns the right table adds.
\<close>

definition merge_row :: "nat \<Rightarrow> zip_table \<Rightarrow> string \<times> cell list \<Rightarrow> zip_table" where
  "merge_row right_width right row =
     (case filter (\<lambda>r. fst r = fst row) right of
        [] \<Rightarrow> [(fst row, snd row @ replicate right_width Missing)]
      | matches \<Rightarrow> map (\<lambda>r. (fst row, snd row @ snd r)) matches)"

definition left_merge :: "nat \<Rightarrow> zip_table \<Rightarrow> zip_table \<Rightarrow> zip_table" where
  "left_merge right_width left right = concat (map (merge_row right_width right) left)"

definition census_cells :: "census_pct \<Rightarrow> cell list" where
  "census_cells p =
     Number (pTotal_Population p) # Number (pMedian_Household_Income p)
       # map Number (percentage_fields p)"

definition census_table :: "census_pct list \<Rightarrow> zip_table" where
  "census_table census_df = map (\<lambda>p. (pZIP_Code p, census_cells p)) census_df"

text \<open>
  The ZIP boundaries are merged onto the census table when the shapefile exists
  (\<open>Some\<close> of the number of its columns and its rows); otherwise the step is skipped.
\<close>

definition census_with_boundaries :: "census_pct list \<Rightarrow> (nat \<times> zip_table) option \<Rightarrow> zip_table" where
  "census_with_boundaries census_df shapefile =
     (case shapefile of
        None \<Rightarrow> census_table census_df
      | Some (width, zip_boundaries) \<Rightarrow> left_merge width (census_table census_df) zip_boundaries)"

definition census_width :: "(nat \<times> zip_table) option \<Rightarrow> nat" where
  "census_width shapefile = 14 + (case shapefile of None \<Rightarrow> 0 | Some (width, _) \<Rightarrow> width)"

text \<open>
  A store of the cleaned location table, with its location ID and chain name. The ZIP
  code and the coordinates are missing when geocoding failed.
\<close>

record location =
  lLocation_ID :: string
  lChain_Name :: string
  lZIP_Code :: "string option"
  lLatitude :: "rat option"
  lLongitude :: "rat option"

definition count_store_chains :: "string list \<Rightarrow> (string \<times> nat) list" where
  \<comment> \<open>\<open>dict(Counter(chain_list))\<close>, keys in the order of first occurrence\<close>
  "count_store_chains chain_list =
     map (\<lambda>c. (c, count_list chain_list c)) (rev (remdups (rev chain_list)))"

definition mean_skipna :: "rat option list \<Rightarrow> fval" where
  \<comment> \<open>the aggregation \<open>mean\<close> skips missing values; of none it is \<open>NaN\<close>\<close>
  "mean_skipna xs =
     (case [x. Some x \<leftarrow> xs] of
        [] \<Rightarrow> NaN
      | vs \<Rightarrow> Fin (sum_list vs / of_nat (length vs)))"

definition stores_in_zip :: "string \<Rightarrow> location list \<Rightarrow> location list" where
  "stores_in_zip z location_df = filter (\<lambda>l. lZIP_Code l = Some z) location_df"

definition zip_location_summary :: "location list \<Rightarrow> zip_table" where
  \<comment> \<open>\<open>groupby("ZIP Code")\<close>: one row per ZIP code that occurs, in sorted order; stores
      without a ZIP code are in no group\<close>
  "zip_location_summary location_df =
     map (\<lambda>z. let g = stores_in_zip z location_df
               in (z, [Number (Fin (of_nat (length g))),
                       Counts (count_store_chains (map lChain_Name g)),
                       Number (mean_skipna (map lLatitude g)),
                       Number (mean_skipna (map lLongitude g))]))
         (sort (remdups [z. Some z \<leftarrow> map lZIP_Code location_df]))"

definition zip_location_census :: "location list \<Rightarrow> census_pct list \<Rightarrow> (nat \<times> zip_table) option \<Rightarrow> zip_table" where
  \<comment> \<open>\<open>zip_location_summary.merge(census_df, on="ZIP Code", how="left")\<close>\<close>
  "zip_location_census location_df census_df shapefile =
     left_merge (census_width shapefile) (zip_location_summary location_df)
       (census_with_boundaries census_df shapefile)"

text \<open>
  The product side of the final merge, \<open>zip_product_complete\<close>, has nine columns beside
  the ZIP code (the category, seven statistics and the keyword frequency); it is taken
  as a table.
\<close>

definition zip_product_location_complete ::
    "location list \<Rightarrow> census_pct list \<Rightarrow> (nat \<times> zip_table) option \<Rightarrow> zip_table \<Rightarrow> zip_table" where
  "zip_product_location_complete location_df census_df shapefile zip_product_complete =
     left_merge 9 (zip_location_census location_df census_df shapefile) zip_product_complete"

definition dropna :: "zip_table \<Rightarrow> zip_table" where
  \<comment> \<open>\<open>DataFrame.dropna()\<close>: keep the rows without a missing value\<close>
  "dropna table = filter (\<lambda>(z, cells). \<not> list_ex isna cells) table"

definition zip_product_location_filtered ::
    "location list \<Rightarrow> census_pct list \<Rightarrow> (nat \<times> zip_table) option \<Rightarrow> zip_table \<Rightarrow> zip_table" where
  "zip_product_location_filtered location_df census_df shapefile zip_product_complete =
     dropna (zip_product_location_complete location_df census_df shapefile zip_product_complete)"

text \<open>
  Sample inputs of the merge: a store in ZIP 45202 and one in ZIP 10001, the census rows
  of ZIP 00601 and of ZIP 45202, a shapefile with a boundary for both census ZIP codes
  and one with a boundary for 45202 only, and the egg summary of ZIP 45202.
\<close>

definition store_45202 :: location where
  "store_45202 =
     \<lparr> lLocation_ID = ''01400943'', lChain_Name = ''KROGER'', lZIP_Code = Some ''45202'',
       lLatitude = Some (391 / 10), lLongitude = Some (- 845 / 10) \<rparr>"

definition census_45202 :: census_row where
  "census_45202 = census_00601 \<lparr> ZIP_Code := ''45202'' \<rparr>"

definition sample_census_df :: "census_pct list" where
  "sample_census_df = process_census_data [census_00601, census_45202]"

definition sample_zip_product_complete :: zip_table where
  "sample_zip_product_complete =
     [(''45202'', [Text ''Egg'', Number (Fin (1 / 4)), Number (Fin (1 / 5)), Number (Fin (1 / 3)),
                   Number (Fin (1 / 4)), Number (Fin 0), Number (Fin 0), Number (Fin 2),
                   Counts [(''kroger'', 2), (''large'', 1), (''brown'', 1)]])]"

definition sample_shapefile :: "(nat \<times> zip_table) option" where
  "sample_shapefile = Some (1, [(''00601'', [Geometry 601]), (''45202'', [Geometry 45202])])"

definition partial_shapefile :: "(nat \<times> zip_table) option" where
  "partial_shapefile = Some (1, [(''45202'', [Geometry 45202])])"

definition store_10001 :: location where
  "store_10001 = store_45202 \<lparr> lLocation_ID := ''01400377'', lZIP_Code := Some ''10001'' \<rparr>"

section \<open>Properties\<close>

subsection \<open>Location ID padding\<close>

lemma length_zfill: "length (zfill w s) = max w (length s)"
  by (cases s) (auto simp: zfill_def)

lemma zfill_long: "w \<le> length s \<Longrightarrow> zfill w s = s"
  by (simp add: zfill_def)

lemma zfill_unsigned:
  "\<not> starts_with_sign s \<Longrightarrow> zfill w s = replicate (w - length s) CHR ''0'' @ s"
  by (cases s) (auto simp: zfill_def starts_with_sign_def)

text \<open>
  C10 (as stated): the padded ID has the original ID as its suffix. It fails for an ID
  that begins with a sign: \<open>"-12".zfill(8)\<close> is \<open>"-0000012"\<close>, where the zeros stand
  between the sign and the digits.
\<close>

theorem pad_location_id_signed_counterexample:
  "pad_location_id ''-12'' = ''-0000012'' \<and> \<not> suffix ''-12'' (pad_location_id ''-12'')"
proof -
  have v: "pad_location_id ''-12'' = ''-0000012''"
    by code_simp
  have "\<not> suffix ''-12'' ''-0000012''"
    by (simp add: suffix_def)
  with v show ?thesis
    by simp
qed

text \<open>
  C10 (amended): for every location ID the padded string has length
  \<open>max 8 (length id)\<close>, and an ID of 8 or more characters is returned unchanged; for
  every ID that does not begin with \<open>+\<close> or \<open>-\<close> the result is the ID with
  \<open>8 - length id\<close> leading zeros in front, so the ID is its suffix.
\<close>

theorem pad_location_id_amended:
  "length (pad_location_id s) = max 8 (length s)
   \<and> (8 \<le> length s \<longrightarrow> pad_location_id s = s)
   \<and> (\<not> starts_with_sign s \<longrightarrow>
        pad_location_id s = replicate (8 - length s) CHR ''0'' @ s
        \<and> suffix s (pad_location_id s))"
  by (simp add: pad_location_id_def length_zfill zfill_long zfill_unsigned suffix_def)

theorem pad_location_id_amended_witness:
  "length (pad_location_id ''9700336'') = max 8 (length ''9700336'')
   \<and> \<not> starts_with_sign ''9700336''
   \<and> pad_location_id ''9700336'' = ''09700336''
   \<and> suffix ''9700336'' (pad_location_id ''9700336'')
   \<and> 8 \<le> length ''012345678''
   \<and> pad_location_id ''012345678'' = ''012345678''"
proof -
  have unsigned: "\<not> starts_with_sign ''9700336''"
    by (simp add: starts_with_sign_def)
  have long: "8 \<le> length ''012345678''"
    by simp
  have padded: "pad_location_id ''9700336'' = ''09700336''"
    by code_simp
  from pad_location_id_amended [of "''9700336''"] unsigned
  have short: "length (pad_location_id ''9700336'') = max 8 (length ''9700336'')
      \<and> suffix ''9700336'' (pad_location_id ''9700336'')"
    by blast
  from pad_location_id_amended [of "''012345678''"] long
  have "pad_location_id ''012345678'' = ''012345678''"
    by blast
  with unsigned long padded short show ?thesis
    by blast
qed

subsection \<open>Size parsing\<close>

lemma quantity_token_none: "\<forall>c\<in>set s. \<not> is_qchar c \<Longrightarrow> quantity_token s = []"
  by (induction s) (auto simp: quantity_token_def)

lemma quantity_token_split:
  assumes "\<forall>c\<in>set pre. \<not> is_qchar c" and "tok \<noteq> []" and "\<forall>c\<in>set tok. is_qchar c"
    and "post = [] \<or> \<not> is_qchar (hd post)"
  shows "quantity_token (pre @ tok @ post) = tok"
proof -
  from assms(2,3) have "is_qchar (hd tok)"
    by (cases tok) auto
  with assms(1,2) have "dropWhile (\<lambda>c. \<not> is_qchar c) (pre @ tok @ post) = tok @ post"
    by (cases tok) (auto simp: dropWhile_append)
  moreover from assms(3,4) have "takeWhile is_qchar (tok @ post) = tok"
    by (cases post) (auto simp: takeWhile_append)
  ultimately show ?thesis
    by (simp add: quantity_token_def)
qed

lemma search_uom_none: "\<forall>c\<in>set s. \<not> is_alpha c \<Longrightarrow> search_uom s = None"
  by (induction s) auto

lemma search_uom_skip: "\<forall>c\<in>set pre. \<not> is_alpha c \<Longrightarrow> search_uom (pre @ u) = search_uom u"
  by (induction pre) auto

lemma search_uom_hit:
  assumes "u \<noteq> []" and "is_alpha (hd u)" and "newline \<notin> set u"
  shows "search_uom u = Some u"
proof -
  from assms(3) have "takeWhile (\<lambda>c. c \<noteq> newline) u = u" "dropWhile (\<lambda>c. c \<noteq> newline) u = []"
    by (auto simp: takeWhile_eq_all_conv)
  then have "dot_star_eol u = Some u"
    by (simp add: dot_star_eol_def)
  with assms(1,2) show ?thesis
    by (cases u) auto
qed

text \<open>
  C7 (as stated): the unit of measure is the trailing alphabetic run of the Size string.
  The pattern \<open>[a-zA-Z]+.*$\<close> matches from the first letter to the end of the string, so
  Size \<open>12 fl oz\<close> gives \<open>fl oz\<close>, while its trailing alphabetic run is \<open>oz\<close>.
\<close>

theorem extract_uom_counterexample:
  "extract_uom (Some ''12 fl oz'') = ''fl oz''
   \<and> spec_trailing_alphabetic_run ''12 fl oz'' = ''oz''
   \<and> extract_uom (Some ''12 fl oz'') \<noteq> spec_trailing_alphabetic_run ''12 fl oz''"
proof -
  have u: "extract_uom (Some ''12 fl oz'') = ''fl oz''"
    by code_simp
  have t: "spec_trailing_alphabetic_run ''12 fl oz'' = ''oz''"
    by code_simp
  from u t show ?thesis
    by simp
qed

text \<open>
  C7 (amended): a Size string with no digit and no dot has quantity -1; when the first
  maximal run of digits and dots (\<open>tok\<close>, between \<open>pre\<close> and \<open>post\<close>) has at least one
  digit and at most one dot, the quantity is the decimal value of that run. A Size string
  with no ASCII letter has unit of measure \<open>unit\<close>; otherwise the unit of measure is the
  text from the first letter to the end of the string, with surrounding whitespace
  stripped (for text without a line break).
\<close>

theorem size_parsing_amended:
  "((\<forall>c\<in>set s. \<not> is_qchar c) \<longrightarrow> extract_quantity (Some s) = Inr (- 1))
   \<and> ((\<forall>c\<in>set pre. \<not> is_qchar c) \<and> tok \<noteq> [] \<and> (\<forall>c\<in>set tok. is_qchar c)
        \<and> (post = [] \<or> \<not> is_qchar (hd post))
        \<and> filter is_digit tok \<noteq> [] \<and> length (filter (\<lambda>c. c = CHR ''.'') tok) \<le> 1
       \<longrightarrow> extract_quantity (Some (pre @ tok @ post)) = Inr (decimal_value tok))
   \<and> ((\<forall>c\<in>set s. \<not> is_alpha c) \<longrightarrow> extract_uom (Some s) = ''unit'')
   \<and> ((\<forall>c\<in>set pre. \<not> is_alpha c) \<and> u \<noteq> [] \<and> is_alpha (hd u) \<and> newline \<notin> set u
       \<longrightarrow> extract_uom (Some (pre @ u)) = py_strip u)"
proof (intro conjI impI)
  assume "\<forall>c\<in>set s. \<not> is_qchar c"
  then show "extract_quantity (Some s) = Inr (- 1)"
    by (simp add: extract_quantity_def py_str_def quantity_token_none)
next
  assume a: "(\<forall>c\<in>set pre. \<not> is_qchar c) \<and> tok \<noteq> [] \<and> (\<forall>c\<in>set tok. is_qchar c)
        \<and> (post = [] \<or> \<not> is_qchar (hd post))
        \<and> filter is_digit tok \<noteq> [] \<and> length (filter (\<lambda>c. c = CHR ''.'') tok) \<le> 1"
  then have "quantity_token (pre @ tok @ post) = tok"
    using quantity_token_split [of pre tok post] by blast
  with a show "extract_quantity (Some (pre @ tok @ post)) = Inr (decimal_value tok)"
    by (simp add: extract_quantity_def py_str_def py_float_def)
next
  assume "\<forall>c\<in>set s. \<not> is_alpha c"
  then show "extract_uom (Some s) = ''unit''"
    by (simp add: extract_uom_def py_str_def search_uom_none)
next
  assume a: "(\<forall>c\<in>set pre. \<not> is_alpha c) \<and> u \<noteq> [] \<and> is_alpha (hd u) \<and> newline \<notin> set u"
  then have "search_uom (pre @ u) = Some u"
    by (simp add: search_uom_skip search_uom_hit)
  then show "extract_uom (Some (pre @ u)) = py_strip u"
    by (simp add: extract_uom_def py_str_def)
qed

theorem size_parsing_amended_witness:
  "extract_quantity (Some ''12 oz'') = Inr 12
   \<and> extract_uom (Some ''12 oz'') = ''oz''
   \<and> extract_quantity (Some ''Each'') = Inr (- 1)
   \<and> extract_uom (Some ''Each'') = ''Each''
   \<and> extract_uom (Some ''12'') = ''unit''"
proof -
  have q_each: "\<forall>c\<in>set ''Each''. \<not> is_qchar c"
    by code_simp
  have q_12: "(\<forall>c\<in>set ''''. \<not> is_qchar c) \<and> ''12'' \<noteq> [] \<and> (\<forall>c\<in>set ''12''. is_qchar c)
        \<and> ('' oz'' = [] \<or> \<not> is_qchar (hd '' oz''))
        \<and> filter is_digit ''12'' \<noteq> [] \<and> length (filter (\<lambda>c. c = CHR ''.'') ''12'') \<le> 1"
    by code_simp
  have a_12: "\<forall>c\<in>set ''12''. \<not> is_alpha c"
    by code_simp
  have u_oz: "(\<forall>c\<in>set ''12 ''. \<not> is_alpha c) \<and> ''oz'' \<noteq> [] \<and> is_alpha (hd ''oz'')
        \<and> newline \<notin> set ''oz''"
    by code_simp
  have u_each: "(\<forall>c\<in>set ''''. \<not> is_alpha c) \<and> ''Each'' \<noteq> [] \<and> is_alpha (hd ''Each'')
        \<and> newline \<notin> set ''Each''"
    by code_simp
  have v: "decimal_value ''12'' = 12" "py_strip ''oz'' = ''oz''" "py_strip ''Each'' = ''Each''"
    by code_simp+
  from size_parsing_amended [of "''Each''" "[]" "''12''" "'' oz''" "''Each''"] q_each q_12 u_each
  have 1: "extract_quantity (Some ''Each'') = Inr (- 1)"
    and 2: "extract_quantity (Some ('''' @ ''12'' @ '' oz'')) = Inr (decimal_value ''12'')"
    and 3: "extract_uom (Some ('''' @ ''Each'')) = py_strip ''Each''"
    by blast+
  from size_parsing_amended [of "''12''" "''12 ''" "''1''" "[]" "''oz''"] a_12 u_oz
  have 4: "extract_uom (Some ''12'') = ''unit''"
    and 5: "extract_uom (Some (''12 '' @ ''oz'')) = py_strip ''oz''"
    by blast+
  from 1 2 3 4 5 v show ?thesis
    by simp
qed

subsection \<open>Totality of the cleaning transformations\<close>

text \<open>
  C4: classification, size parsing and price normalisation never raise. The code raises
  on two kinds of rows. A Size whose first run of digits and dots is not a decimal
  numeral (here the dot of \<open>approx.\<close>) is passed to \<open>float\<close>, which raises
  \<open>ValueError\<close>; a missing Description is a float, and \<open>description.lower()\<close> raises
  \<open>AttributeError\<close>. Either exception ends \<open>clean_product_data\<close>.
\<close>

theorem product_cleaner_raises:
  "extract_quantity (Some ''approx. 2 lb'') = Inl ValueError
   \<and> clean_product_data [egg_row \<lparr> Size := Some ''approx. 2 lb'' \<rparr>] = Raises ValueError
   \<and> classify_product None = Inl AttributeError
   \<and> clean_product_data [egg_row \<lparr> Description := None \<rparr>] = Raises AttributeError"
proof -
  have 1: "extract_quantity (Some ''approx. 2 lb'') = Inl ValueError"
    by code_simp
  have 2: "clean_product_data [egg_row \<lparr> Size := Some ''approx. 2 lb'' \<rparr>] = Raises ValueError"
    by code_simp
  have 3: "classify_product None = Inl AttributeError"
    by (simp add: classify_product_def)
  have 4: "clean_product_data [egg_row \<lparr> Description := None \<rparr>] = Raises AttributeError"
    by code_simp
  from 1 2 3 4 show ?thesis
    by simp
qed

subsection \<open>The inactive-row filter\<close>

lemma series_apply_Inr:
  "series_apply f (map g df) = Inr ys \<Longrightarrow> ys = map (\<lambda>r. projr (f (g r))) df"
  by (induction df arbitrary: ys) (auto split: sum.splits)

lemma zip_columns:
  "zip df (zip (map a df) (zip (map b df) (map c df))) = map (\<lambda>r. (r, a r, b r, c r)) df"
  by (induction df) auto

lemma clean_product_data_Returns:
  assumes "clean_product_data df = Returns out"
  shows "out = drop_duplicates observation_key
                 (filter (\<lambda>c. \<not> inactive_items_mask c) (map cleaned_row df))"
proof -
  from assms obtain cats sized where
    c: "series_apply classify_product (map Description df) = Inr cats" and
    p: "process_size (map Size df) = Inr sized" and
    o: "out = drop_duplicates observation_key
              (filter (\<lambda>c. \<not> inactive_items_mask c)
                 (map (\<lambda>(r, category, quantity, uom). derive_columns r category quantity uom)
                    (zip df (zip cats sized))))"
    by (auto simp: clean_product_data_def Let_def split: if_splits sum.splits)
  from p obtain qs where
    q: "series_apply extract_quantity (map Size df) = Inr qs" and
    s: "sized = zip qs (map extract_uom (map Size df))"
    by (auto simp: process_size_def split: sum.splits)
  from series_apply_Inr [OF c] series_apply_Inr [OF q] s
  have "zip df (zip cats sized) =
          map (\<lambda>r. (r, projr (classify_product (Description r)),
                     projr (extract_quantity (Size r)), extract_uom (Size r))) df"
    by (simp add: zip_columns comp_def)
  then have "map (\<lambda>(r, category, quantity, uom). derive_columns r category quantity uom)
               (zip df (zip cats sized))
             = map cleaned_row df"
    by (simp add: cleaned_row_def comp_def)
  with o show ?thesis
    by simp
qed

lemma set_drop_duplicates_seen: "set (drop_duplicates_seen key seen xs) \<subseteq> set xs"
  by (induction xs arbitrary: seen) auto

lemma keys_drop_duplicates_seen:
  "key ` set (drop_duplicates_seen key seen xs) = key ` set xs - set seen"
  by (induction xs arbitrary: seen) auto

lemma drop_duplicates_seen_distinct:
  "distinct (map key xs) \<Longrightarrow> key ` set xs \<inter> set seen = {} \<Longrightarrow> drop_duplicates_seen key seen xs = xs"
  by (induction xs arbitrary: seen) auto

lemma inactive_cleaned_row: "inactive_items_mask (cleaned_row r) = spec_inactive r"
  by (simp add: inactive_items_mask_def cleaned_row_def derive_columns_def spec_inactive_def)

lemma distinct_map_filter_keys: "distinct (map f xs) \<Longrightarrow> distinct (map f (filter P xs))"
  by (induction xs) auto

text \<open>
  C5: whenever the cleaning script returns a table, every output row is the cleaned form
  of an input row that is not inactive; the cleaned form of an inactive input row (stock
  level \<open>unknown\<close> in some casing, regular price 0 and promo price 0 after
  normalisation) is not in the output; every input row that is not inactive is
  represented in the output by a row of its (product, location, date) key, and when no
  two input rows share a key the output is exactly the cleaned rows that are not
  inactive. A row whose stock level is \<open>unknown\<close> in some casing and whose regular
  price is 5.00 is not inactive.
\<close>

theorem inactive_row_filter:
  assumes "clean_product_data df = Returns out"
  shows "(\<forall>c\<in>set out. \<exists>r\<in>set df. c = cleaned_row r \<and> \<not> spec_inactive r)
       \<and> (\<forall>r\<in>set df. spec_inactive r \<longrightarrow> cleaned_row r \<notin> set out)
       \<and> (\<forall>r\<in>set df. \<not> spec_inactive r \<longrightarrow>
             (\<exists>c\<in>set out. observation_key c = observation_key (cleaned_row r)))
       \<and> (distinct (map (\<lambda>r. observation_key (cleaned_row r)) df) \<longrightarrow>
             out = map cleaned_row (filter (\<lambda>r. \<not> spec_inactive r) df))
       \<and> (\<forall>r\<in>set df. (\<exists>s. Stock_Level r = Some s \<and> py_lower s = ''unknown'')
             \<and> Regular_Price r = Some 5 \<longrightarrow> \<not> spec_inactive r)"
proof -
  let ?active = "filter (\<lambda>c. \<not> inactive_items_mask c) (map cleaned_row df)"
  have out: "out = drop_duplicates_seen observation_key [] ?active"
    using clean_product_data_Returns [OF assms] by (simp add: drop_duplicates_def)
  have active: "?active = map cleaned_row (filter (\<lambda>r. \<not> spec_inactive r) df)"
    by (simp add: filter_map comp_def inactive_cleaned_row)
  have sub: "set out \<subseteq> set ?active"
    unfolding out by (rule set_drop_duplicates_seen)
  have keys: "observation_key ` set out = observation_key ` set ?active"
    unfolding out by (simp add: keys_drop_duplicates_seen)
  have 1: "\<forall>c\<in>set out. \<exists>r\<in>set df. c = cleaned_row r \<and> \<not> spec_inactive r"
    using sub unfolding active by auto
  have 2: "\<forall>r\<in>set df. spec_inactive r \<longrightarrow> cleaned_row r \<notin> set out"
  proof (intro ballI impI notI)
    fix r assume "spec_inactive r" and "cleaned_row r \<in> set out"
    with sub have "\<not> inactive_items_mask (cleaned_row r)"
      by auto
    with \<open>spec_inactive r\<close> show False
      by (simp add: inactive_cleaned_row)
  qed
  have 3: "\<forall>r\<in>set df. \<not> spec_inactive r \<longrightarrow>
             (\<exists>c\<in>set out. observation_key c = observation_key (cleaned_row r))"
  proof (intro ballI impI)
    fix r assume "r \<in> set df" and "\<not> spec_inactive r"
    then have "cleaned_row r \<in> set ?active"
      unfolding active by auto
    then have "observation_key (cleaned_row r) \<in> observation_key ` set out"
      unfolding keys by (rule imageI)
    then show "\<exists>c\<in>set out. observation_key c = observation_key (cleaned_row r)"
      by auto
  qed
  have 4: "distinct (map (\<lambda>r. observation_key (cleaned_row r)) df) \<longrightarrow>
             out = map cleaned_row (filter (\<lambda>r. \<not> spec_inactive r) df)"
  proof
    assume "distinct (map (\<lambda>r. observation_key (cleaned_row r)) df)"
    then have "distinct (map (\<lambda>r. observation_key (cleaned_row r)) (filter (\<lambda>r. \<not> spec_inactive r) df))"
      by (rule distinct_map_filter_keys)
    then have "distinct (map observation_key ?active)"
      unfolding active by (simp add: comp_def)
    then have "drop_duplicates_seen observation_key [] ?active = ?active"
      by (simp add: drop_duplicates_seen_distinct)
    with out active show "out = map cleaned_row (filter (\<lambda>r. \<not> spec_inactive r) df)"
      by simp
  qed
  have 5: "\<forall>r\<in>set df. (\<exists>s. Stock_Level r = Some s \<and> py_lower s = ''unknown'')
             \<and> Regular_Price r = Some 5 \<longrightarrow> \<not> spec_inactive r"
    by (simp add: spec_inactive_def to_numeric_fillna0_def)
  from 1 2 3 4 5 show ?thesis
    by blast
qed

theorem inactive_row_filter_witness:
  "clean_product_data [egg_row, bread_row] = Returns [cleaned_row egg_row]
   \<and> Stock_Level egg_row = Some ''Unknown'' \<and> py_lower ''Unknown'' = ''unknown''
   \<and> Regular_Price egg_row = Some 5
   \<and> \<not> spec_inactive egg_row
   \<and> spec_inactive bread_row
   \<and> cleaned_row bread_row \<notin> set [cleaned_row egg_row]
   \<and> distinct (map (\<lambda>r. observation_key (cleaned_row r)) [egg_row, bread_row])
   \<and> [cleaned_row egg_row] = map cleaned_row (filter (\<lambda>r. \<not> spec_inactive r) [egg_row, bread_row])"
proof -
  have run: "clean_product_data [egg_row, bread_row] = Returns [cleaned_row egg_row]"
    by code_simp
  have egg: "Stock_Level egg_row = Some ''Unknown''" "py_lower ''Unknown'' = ''unknown''"
      "Regular_Price egg_row = Some 5"
    by code_simp+
  have bread: "spec_inactive bread_row"
    by code_simp
  have keys: "distinct (map (\<lambda>r. observation_key (cleaned_row r)) [egg_row, bread_row])"
    by code_simp
  note filtered = inactive_row_filter [OF run]
  from filtered egg have "\<not> spec_inactive egg_row"
    by simp
  moreover from filtered bread have "cleaned_row bread_row \<notin> set [cleaned_row egg_row]"
    by simp
  moreover from filtered keys
  have "[cleaned_row egg_row] = map cleaned_row (filter (\<lambda>r. \<not> spec_inactive r) [egg_row, bread_row])"
    by blast
  ultimately show ?thesis
    using run egg bread keys by blast
qed

subsection \<open>Census percentages\<close>

lemma pct_of_count:
  assumes "is_count_of t c"
  shows "\<exists>n. c = Fin n \<and> fillna0 (fdiv c (Fin t)) = Fin (if t = 0 then 0 else n / t)
             \<and> in_unit_interval (fillna0 (fdiv c (Fin t)))"
proof -
  from assms obtain n where c: "c = Fin n" and n: "0 \<le> n" "n \<le> t"
    by (auto simp: is_count_of_def split: fval.splits)
  show ?thesis
  proof (cases "t = 0")
    case True
    with n have "n = 0"
      by simp
    with True c show ?thesis
      by (simp add: fillna0_def in_unit_interval_def)
  next
    case False
    with n have "0 < t"
      by simp
    with n have "0 \<le> n / t" "n / t \<le> 1"
      by (simp_all add: divide_le_eq_1)
    with False c show ?thesis
      by (simp add: fillna0_def in_unit_interval_def)
  qed
qed

lemma percentage_fields_process:
  "percentage_fields (process_census_row r) =
     map (\<lambda>c. fillna0 (fdiv c (Total_Population r))) (raw_counts r)"
  by (simp add: percentage_fields_def process_census_row_def raw_counts_def Let_def)

text \<open>
  C3 (as stated): every percentage field lies in [0,1] and is exactly 0 when the total
  population is 0. Nothing bounds a count by the total: Poverty Count 5 with Total
  Population 3 gives 5/3, and with Total Population 0 it gives an infinity, which
  \<open>fillna(0)\<close> leaves alone (only 0/0 is \<open>NaN\<close>).
\<close>

theorem census_percentage_counterexample:
  "Poverty_Rate_pct (process_census_row (census_00601 \<lparr> Total_Population := Fin 3, Poverty_Count := Fin 5 \<rparr>))
     = Fin (5 / 3)
   \<and> \<not> in_unit_interval (Fin (5 / 3))
   \<and> Poverty_Rate_pct (process_census_row (census_00601 \<lparr> Total_Population := Fin 0, Poverty_Count := Fin 5 \<rparr>))
     = PosInf
   \<and> \<not> in_unit_interval PosInf"
  by (simp add: process_census_row_def census_00601_def fillna0_def in_unit_interval_def)

text \<open>
  C3 (amended): for every census row whose total population is a number \<open>t\<close> and whose
  raw counts (for the Other Race field, the sum of the Other Race and Pacific Islander
  counts) each lie between 0 and \<open>t\<close>, every one of the twelve percentage fields of the
  output row is the raw count divided by \<open>t\<close> when \<open>t\<close> is not 0 and exactly 0 when
  \<open>t\<close> is 0, and lies in [0,1].
\<close>

theorem census_percentage_amended:
  assumes "Total_Population r = Fin t"
    and "\<forall>c\<in>set (raw_counts r). is_count_of t c"
    and "i < 12"
  shows "\<exists>n. raw_counts r ! i = Fin n
             \<and> percentage_fields (process_census_row r) ! i = Fin (if t = 0 then 0 else n / t)
             \<and> in_unit_interval (percentage_fields (process_census_row r) ! i)"
proof -
  have len: "length (raw_counts r) = 12"
    by (simp add: raw_counts_def)
  with assms(3) have "raw_counts r ! i \<in> set (raw_counts r)"
    by simp
  with assms(2) have "is_count_of t (raw_counts r ! i)"
    by blast
  from pct_of_count [OF this] assms(1,3) len show ?thesis
    by (simp add: percentage_fields_process)
qed

theorem census_percentage_amended_witness:
  "Total_Population census_00601 = Fin 16721
   \<and> list_all (is_count_of 16721) (raw_counts census_00601)
   \<and> raw_counts census_00601 ! 0 = Fin 10199
   \<and> Poverty_Rate_pct (process_census_row census_00601) = Fin (10199 / 16721)
   \<and> in_unit_interval (Poverty_Rate_pct (process_census_row census_00601))
   \<and> Total_Population census_empty_zip = Fin 0
   \<and> list_all (is_count_of 0) (raw_counts census_empty_zip)
   \<and> Poverty_Rate_pct (process_census_row census_empty_zip) = Fin 0"
proof -
  have t1: "Total_Population census_00601 = Fin 16721"
    by (simp add: census_00601_def)
  have c1: "list_all (is_count_of 16721) (raw_counts census_00601)"
    by (simp add: census_00601_def raw_counts_def is_count_of_def)
  have t0: "Total_Population census_empty_zip = Fin 0"
    by (simp add: census_empty_zip_def)
  have c0: "list_all (is_count_of 0) (raw_counts census_empty_zip)"
    by (simp add: census_empty_zip_def raw_counts_def is_count_of_def)
  have r1: "raw_counts census_00601 ! 0 = Fin 10199"
    by (simp add: census_00601_def raw_counts_def)
  have f: "percentage_fields (process_census_row census_00601) ! 0
             = Poverty_Rate_pct (process_census_row census_00601)"
      "percentage_fields (process_census_row census_empty_zip) ! 0
             = Poverty_Rate_pct (process_census_row census_empty_zip)"
    by (simp_all add: percentage_fields_def)
  from census_percentage_amended [OF t1, of 0] c1 r1 f(1)
  have 1: "Poverty_Rate_pct (process_census_row census_00601) = Fin (10199 / 16721)
           \<and> in_unit_interval (Poverty_Rate_pct (process_census_row census_00601))"
    by (auto simp: list_all_iff)
  from census_percentage_amended [OF t0, of 0] c0 f(2)
  have 2: "Poverty_Rate_pct (process_census_row census_empty_zip) = Fin 0"
    by (auto simp: list_all_iff)
  from t1 c1 r1 1 t0 c0 2 show ?thesis
    by blast
qed

subsection \<open>Temporal aggregation\<close>

lemma product_grouped_df_member:
  assumes "a \<in> set (product_grouped_df df)"
  shows "a = aggregate_group (aKey a) (group_rows (aKey a) df) \<and> group_rows (aKey a) df \<noteq> []"
proof -
  from assms have "a \<in> (\<lambda>k. aggregate_group k (group_rows k df)) ` set (map group_key_of df)"
    by (simp add: product_grouped_df_def)
  then obtain k where k: "k \<in> set (map group_key_of df)"
    and a: "a = aggregate_group k (group_rows k df)"
    by blast
  from a have "aKey a = k"
    by (simp add: aggregate_group_def Let_def)
  moreover from k obtain ob where "ob \<in> set df" "group_key_of ob = k"
    by auto
  then have "group_rows k df \<noteq> []"
    by (auto simp: group_rows_def filter_empty_conv)
  ultimately show ?thesis
    using a by simp
qed

lemma most_recent_price_last_row:
  assumes "a \<in> set (product_grouped_df df)"
  shows "Most_Recent_Price a = fillna0 (oPrice_per_Unit (last (group_rows (aKey a) df)))"
proof -
  from product_grouped_df_member [OF assms]
  have "a = aggregate_group (aKey a) (group_rows (aKey a) df)" "group_rows (aKey a) df \<noteq> []"
    by simp_all
  then have "Most_Recent_Price a = Most_Recent_Price (aggregate_group (aKey a) (group_rows (aKey a) df))"
    "group_rows (aKey a) df \<noteq> []"
    by simp_all
  then show ?thesis
    by (simp add: aggregate_group_def Let_def)
qed

text \<open>
  C1: the most-recent price is the price at the chronologically last retrieval date,
  whatever the order of the rows. The code takes the last row of the group in input
  order: with the observation of 2 February (price 5) before the one of 1 February
  (price 3), \<open>Most_Recent_Date\<close> is 2 February but \<open>Most_Recent_Price\<close> is 3, and the
  same two rows in the other order give 5.
\<close>

theorem most_recent_price_input_order:
  "map Most_Recent_Date (product_grouped_df [obs_feb2, obs_feb1]) = [Some 20250202]
   \<and> oDate_Retrieved obs_feb2 = Some 20250202 \<and> oPrice_per_Unit obs_feb2 = Fin 5
   \<and> map Most_Recent_Price (product_grouped_df [obs_feb2, obs_feb1]) = [Fin 3]
   \<and> map Most_Recent_Price (product_grouped_df [obs_feb1, obs_feb2]) = [Fin 5]"
proof -
  have 1: "map Most_Recent_Date (product_grouped_df [obs_feb2, obs_feb1]) = [Some 20250202]"
    by code_simp
  have 2: "oDate_Retrieved obs_feb2 = Some 20250202" "oPrice_per_Unit obs_feb2 = Fin 5"
    by (simp_all add: obs_feb2_def)
  have 3: "map Most_Recent_Price (product_grouped_df [obs_feb2, obs_feb1]) = [Fin 3]"
    by code_simp
  have 4: "map Most_Recent_Price (product_grouped_df [obs_feb1, obs_feb2]) = [Fin 5]"
    by code_simp
  from 1 2 3 4 show ?thesis
    by simp
qed

lemma observation_counts:
  assumes "a \<in> set (product_grouped_df df)"
  shows "Promo_Observations a
           = length (filter (\<lambda>ob. gt_zero (oPromo_Price ob)) (group_rows (aKey a) df))
       \<and> Total_Observations a
           = length (filter (\<lambda>ob. oDate_Retrieved ob \<noteq> None) (group_rows (aKey a) df))"
proof -
  from product_grouped_df_member [OF assms]
  have a: "a = aggregate_group (aKey a) (group_rows (aKey a) df)"
    by simp
  show ?thesis
    by (subst (1 3) a) (simp add: aggregate_group_def Let_def)
qed

lemma observation_counts_dated:
  assumes "a \<in> set (product_grouped_df df)"
    and "\<forall>ob\<in>set (group_rows (aKey a) df). oDate_Retrieved ob \<noteq> None"
  shows "Total_Observations a = length (group_rows (aKey a) df)
       \<and> Promo_Observations a \<le> Total_Observations a"
proof -
  from assms(2)
  have "filter (\<lambda>ob. oDate_Retrieved ob \<noteq> None) (group_rows (aKey a) df) = group_rows (aKey a) df"
    by (simp only: filter_id_conv)
  with observation_counts [OF assms(1)] show ?thesis
    by simp
qed

lemma promo_frequency_dated_samples:
  "map Promo_Frequency (product_grouped_df promo_history) = [Fin (33 / 100)]
   \<and> round2 (Fin (23 / 40)) = Fin (57 / 100)
   \<and> round2 (Fin (1 / 8)) = Fin (12 / 100)"
proof -
  have 1: "map Promo_Frequency (product_grouped_df promo_history) = [Fin (33 / 100)]"
    by code_simp
  have 2: "round2 (Fin (23 / 40)) = Fin (57 / 100)"
    by code_simp
  have 3: "round2 (Fin (1 / 8)) = Fin (12 / 100)"
    by code_simp
  from 1 2 3 show ?thesis
    by simp
qed

text \<open>
  C6: the promo frequency is the fraction of the observations of a group that are on
  promotion, in [0,1]. The code counts the promo observations over all rows of the group
  but takes as total the \<open>count\<close> of the date column, which skips the rows without a
  retrieval date: a group of one dated and one undated observation, both on promotion,
  has 2 promo observations of 1 in total and the frequency 2, and a single undated
  observation on promotion gives 1/0, an infinity that \<open>fillna(0)\<close> and \<open>round(2)\<close>
  leave alone.
\<close>

theorem promo_frequency_undated_rows:
  "map Promo_Observations (product_grouped_df [obs_promo, obs_undated_promo]) = [2]
   \<and> map Total_Observations (product_grouped_df [obs_promo, obs_undated_promo]) = [1]
   \<and> map Promo_Frequency (product_grouped_df [obs_promo, obs_undated_promo]) = [Fin 2]
   \<and> \<not> in_unit_interval (Fin 2)
   \<and> map Promo_Observations (product_grouped_df [obs_undated_promo]) = [1]
   \<and> map Total_Observations (product_grouped_df [obs_undated_promo]) = [0]
   \<and> map Promo_Frequency (product_grouped_df [obs_undated_promo]) = [PosInf]
   \<and> \<not> in_unit_interval PosInf"
proof -
  have 1: "map Promo_Observations (product_grouped_df [obs_promo, obs_undated_promo]) = [2]"
    by code_simp
  have 2: "map Total_Observations (product_grouped_df [obs_promo, obs_undated_promo]) = [1]"
    by code_simp
  have 3: "map Promo_Frequency (product_grouped_df [obs_promo, obs_undated_promo]) = [Fin 2]"
    by code_simp
  have 4: "map Promo_Observations (product_grouped_df [obs_undated_promo]) = [1]"
    by code_simp
  have 5: "map Total_Observations (product_grouped_df [obs_undated_promo]) = [0]"
    by code_simp
  have 6: "map Promo_Frequency (product_grouped_df [obs_undated_promo]) = [PosInf]"
    by code_simp
  from 1 2 3 4 5 6 show ?thesis
    by (simp add: in_unit_interval_def)
qed

subsection \<open>Keyword extraction\<close>

lemma cleaned_words_filter:
  "cleaned_words ws =
     filter (\<lambda>t. t \<noteq> [] \<and> t \<noteq> ''egg'' \<and> t \<noteq> ''eggs'' \<and> t \<noteq> ''bread'')
       (map (\<lambda>w. py_lower (filter is_alpha w)) ws)"
  by (induction ws) (auto simp: cleaned_words_def clean_keyword_def truthy_def Let_def)

lemma concat_cleaned_words:
  "concat (map cleaned_words (map description_list ds)) = spec_surviving_tokens ds"
  by (induction ds)
     (simp_all add: spec_surviving_tokens_def description_list_def cleaned_words_filter)

text \<open>
  C8 (as stated): each (location, category) group gets a frequency mapping from token to
  count. \<open>keyword_list\<close> returns the list of the surviving tokens themselves, one entry
  per occurrence: for two egg descriptions it has four entries with \<open>kroger\<close> twice,
  where the frequency mapping has three keys.
\<close>

theorem keyword_list_counterexample:
  "keyword_list (map description_list egg_descriptions) = [''kroger'', ''large'', ''kroger'', ''brown'']
   \<and> spec_keyword_frequency egg_descriptions = [(''kroger'', 2), (''large'', 1), (''brown'', 1)]
   \<and> \<not> distinct (keyword_list (map description_list egg_descriptions))
   \<and> length (keyword_list (map description_list egg_descriptions))
       \<noteq> length (spec_keyword_frequency egg_descriptions)"
proof -
  have 1: "keyword_list (map description_list egg_descriptions)
             = [''kroger'', ''large'', ''kroger'', ''brown'']"
    by code_simp
  have 2: "spec_keyword_frequency egg_descriptions = [(''kroger'', 2), (''large'', 1), (''brown'', 1)]"
    by code_simp
  from 1 2 show ?thesis
    by simp
qed

text \<open>
  C8 (amended): for the descriptions of a group, \<open>keyword_list\<close> returns the list of
  all description tokens after lowercasing, whitespace-splitting and stripping
  non-alphabetic characters, without the empty tokens and the words \<open>egg\<close>, \<open>eggs\<close>
  and \<open>bread\<close>, in order and with repetitions; when no token survives it returns the
  sentinel list \<open>["other"]\<close>. \<open>keyword_summary\<close> holds this list for every
  (location, category) group.
\<close>

theorem keyword_list_amended:
  "keyword_list (map description_list ds) =
     (if spec_surviving_tokens ds = [] then [''other''] else spec_surviving_tokens ds)
   \<and> keyword_summary grouped =
       map (\<lambda>k. (k, if spec_surviving_tokens (descriptions_of_group k grouped) = [] then [''other'']
                     else spec_surviving_tokens (descriptions_of_group k grouped)))
           (sort (remdups (map location_category grouped)))"
proof -
  have kl: "keyword_list (map description_list ds) =
     (if spec_surviving_tokens ds = [] then [''other''] else spec_surviving_tokens ds)" for ds
    unfolding keyword_list_def Let_def concat_cleaned_words by auto
  have "keyword_summary grouped =
       map (\<lambda>k. (k, keyword_list (map description_list (descriptions_of_group k grouped))))
           (sort (remdups (map location_category grouped)))"
    unfolding keyword_summary_def descriptions_of_group_def map_map comp_def ..
  with kl show ?thesis
    by simp
qed

subsection \<open>ZIP joins\<close>

lemma merge_row_zips: "fst ` set (merge_row w r row) = {fst row}"
  by (cases "filter (\<lambda>x. fst x = fst row) r") (auto simp: merge_row_def image_iff)

lemma left_merge_zips: "set (map fst (left_merge w l r)) = set (map fst l)"
  by (induction l) (simp_all add: left_merge_def image_Un merge_row_zips)

lemma census_table_zips: "map fst (census_table census_df) = map pZIP_Code census_df"
  by (simp add: census_table_def comp_def)

lemma census_with_boundaries_zips:
  "set (map fst (census_with_boundaries census_df shapefile)) = set (map pZIP_Code census_df)"
proof (cases shapefile)
  case None
  then show ?thesis
    by (simp only: census_with_boundaries_def option.case census_table_zips)
next
  case (Some s)
  obtain w zb where "s = (w, zb)"
    by (cases s)
  with Some show ?thesis
    by (simp only: census_with_boundaries_def option.case prod.case left_merge_zips census_table_zips)
qed

lemma zip_location_summary_zips:
  "set (map fst (zip_location_summary location_df)) = {z. Some z \<in> lZIP_Code ` set location_df}"
  by (auto simp: zip_location_summary_def Let_def comp_def image_iff)

lemma zip_location_summary_sample:
  "zip_location_summary [store_45202] =
     [(''45202'', [Number (Fin 1), Counts [(''KROGER'', 1)], Number (Fin (391 / 10)),
                   Number (Fin (- 845 / 10))])]"
  by (simp add: zip_location_summary_def store_45202_def stores_in_zip_def
        count_store_chains_def mean_skipna_def)

lemma sample_census_zips:
  "census_table sample_census_df =
     [(''00601'', census_cells (process_census_row census_00601)),
      (''45202'', census_cells (process_census_row census_45202))]"
  by (simp add: census_table_def sample_census_df_def process_census_data_def
        process_census_row_def census_45202_def census_00601_def)

text \<open>
  C2 (as stated): the location summary is left-joined onto the census table, so every
  census ZIP row is preserved through step (b). The merge is the other way round,
  \<open>zip_location_summary.merge(census_df, how="left")\<close>: the census row of ZIP 00601,
  where no store stands, is in the census table with boundaries and not in the result.
\<close>

theorem zip_joins_counterexample:
  "map fst (census_with_boundaries sample_census_df sample_shapefile) = [''00601'', ''45202'']
   \<and> map fst (zip_location_census [store_45202] sample_census_df sample_shapefile) = [''45202'']
   \<and> ''00601'' \<notin> set (map fst (zip_location_census [store_45202] sample_census_df sample_shapefile))"
proof -
  have 1: "map fst (census_with_boundaries sample_census_df sample_shapefile) = [''00601'', ''45202'']"
    by (simp add: left_merge_def merge_row_def census_with_boundaries_def sample_shapefile_def
          sample_census_zips)
  have 2: "map fst (zip_location_census [store_45202] sample_census_df sample_shapefile) = [''45202'']"
    by (simp add: zip_location_census_def left_merge_def merge_row_def census_with_boundaries_def
          sample_shapefile_def sample_census_zips zip_location_summary_sample)
  from 1 2 show ?thesis
    by simp
qed

lemma set_merge_row:
  "set (merge_row w r row) =
     (if fst row \<in> fst ` set r
      then (\<lambda>m. (fst row, snd row @ snd m)) ` {m \<in> set r. fst m = fst row}
      else {(fst row, snd row @ replicate w Missing)})"
proof (cases "filter (\<lambda>m. fst m = fst row) r")
  case Nil
  then have "fst row \<notin> fst ` set r"
    by (auto simp: filter_empty_conv)
  with Nil show ?thesis
    by (simp add: merge_row_def)
next
  case (Cons m ms)
  then have "m \<in> set (filter (\<lambda>m. fst m = fst row) r)"
    by simp
  then have "m \<in> set r" "fst m = fst row"
    by simp_all
  then have "fst row \<in> fst ` set r"
    by (metis imageI)
  moreover from Cons
  have "set (merge_row w r row) = (\<lambda>m. (fst row, snd row @ snd m)) ` set (filter (\<lambda>m. fst m = fst row) r)"
    by (simp add: merge_row_def)
  ultimately show ?thesis
    by simp
qed

lemma set_left_merge: "set (left_merge w l r) = (\<Union>row\<in>set l. set (merge_row w r row))"
  by (simp add: left_merge_def)

lemma left_merge_matched:
  assumes "row \<in> set l" and "m \<in> set r" and "fst m = fst row"
  shows "(fst row, snd row @ snd m) \<in> set (left_merge w l r)"
proof -
  from assms(2,3) have "fst row \<in> fst ` set r"
    by (metis imageI)
  moreover from assms(2,3)
  have "(fst row, snd row @ snd m) \<in> (\<lambda>m. (fst row, snd row @ snd m)) ` {m \<in> set r. fst m = fst row}"
    by blast
  ultimately have "(fst row, snd row @ snd m) \<in> set (merge_row w r row)"
    by (simp only: set_merge_row if_True)
  with assms(1) show ?thesis
    unfolding set_left_merge by blast
qed

lemma left_merge_unmatched:
  assumes "row \<in> set l" and "fst row \<notin> fst ` set r"
  shows "(fst row, snd row @ replicate w Missing) \<in> set (left_merge w l r)"
proof -
  from assms(2) have "(fst row, snd row @ replicate w Missing) \<in> set (merge_row w r row)"
    by (simp add: set_merge_row)
  with assms(1) show ?thesis
    unfolding set_left_merge by blast
qed

lemma left_merge_sound:
  assumes "x \<in> set (left_merge w l r)"
  shows "\<exists>row\<in>set l. fst x = fst row
           \<and> ((\<exists>m\<in>set r. fst m = fst row \<and> snd x = snd row @ snd m)
              \<or> (fst row \<notin> fst ` set r \<and> snd x = snd row @ replicate w Missing))"
proof -
  from assms obtain row where row: "row \<in> set l" and x: "x \<in> set (merge_row w r row)"
    unfolding set_left_merge by blast
  have "fst x = fst row
           \<and> ((\<exists>m\<in>set r. fst m = fst row \<and> snd x = snd row @ snd m)
              \<or> (fst row \<notin> fst ` set r \<and> snd x = snd row @ replicate w Missing))"
  proof (cases "fst row \<in> fst ` set r")
    case True
    with x have "x \<in> (\<lambda>m. (fst row, snd row @ snd m)) ` {m \<in> set r. fst m = fst row}"
      by (simp only: set_merge_row if_True)
    then obtain m where "m \<in> set r" "fst m = fst row" "x = (fst row, snd row @ snd m)"
      by blast
    then show ?thesis
      by auto
  next
    case False
    with x show ?thesis
      by (simp add: set_merge_row)
  qed
  with row show ?thesis
    by blast
qed

lemma census_table_member:
  "p \<in> set census_df \<Longrightarrow> (pZIP_Code p, census_cells p) \<in> set (census_table census_df)"
  by (auto simp: census_table_def)

lemma census_table_row:
  "c \<in> set (census_table census_df) \<Longrightarrow> \<exists>p\<in>set census_df. c = (pZIP_Code p, census_cells p)"
  by (auto simp: census_table_def)

lemma census_boundaries_joined:
  assumes "shapefile = Some (w, zb)"
  shows "(\<forall>p\<in>set census_df. \<forall>b\<in>set zb. fst b = pZIP_Code p \<longrightarrow>
            (pZIP_Code p, census_cells p @ snd b) \<in> set (census_with_boundaries census_df shapefile))
       \<and> (\<forall>p\<in>set census_df. pZIP_Code p \<notin> fst ` set zb \<longrightarrow>
            (pZIP_Code p, census_cells p @ replicate w Missing) \<in> set (census_with_boundaries census_df shapefile))
       \<and> (\<forall>c\<in>set (census_with_boundaries census_df shapefile). \<exists>p\<in>set census_df. fst c = pZIP_Code p
            \<and> ((\<exists>b\<in>set zb. fst b = fst c \<and> snd c = census_cells p @ snd b)
               \<or> (fst c \<notin> fst ` set zb \<and> snd c = census_cells p @ replicate w Missing)))"
proof -
  from assms have C: "census_with_boundaries census_df shapefile = left_merge w (census_table census_df) zb"
    by (simp add: census_with_boundaries_def)
  have 1: "\<forall>p\<in>set census_df. \<forall>b\<in>set zb. fst b = pZIP_Code p \<longrightarrow>
            (pZIP_Code p, census_cells p @ snd b) \<in> set (census_with_boundaries census_df shapefile)"
  proof (intro ballI impI)
    fix p b assume "p \<in> set census_df" and b: "b \<in> set zb" "fst b = pZIP_Code p"
    then have "(pZIP_Code p, census_cells p) \<in> set (census_table census_df)"
      by (simp add: census_table_member)
    from left_merge_matched [OF this b(1), of w] b(2)
    show "(pZIP_Code p, census_cells p @ snd b) \<in> set (census_with_boundaries census_df shapefile)"
      by (simp add: C)
  qed
  have 2: "\<forall>p\<in>set census_df. pZIP_Code p \<notin> fst ` set zb \<longrightarrow>
            (pZIP_Code p, census_cells p @ replicate w Missing) \<in> set (census_with_boundaries census_df shapefile)"
  proof (intro ballI impI)
    fix p assume "p \<in> set census_df" and n: "pZIP_Code p \<notin> fst ` set zb"
    then have "(pZIP_Code p, census_cells p) \<in> set (census_table census_df)"
      by (simp add: census_table_member)
    from left_merge_unmatched [OF this, of zb w] n
    show "(pZIP_Code p, census_cells p @ replicate w Missing) \<in> set (census_with_boundaries census_df shapefile)"
      by (simp add: C)
  qed
  have 3: "\<forall>c\<in>set (census_with_boundaries census_df shapefile). \<exists>p\<in>set census_df. fst c = pZIP_Code p
            \<and> ((\<exists>b\<in>set zb. fst b = fst c \<and> snd c = census_cells p @ snd b)
               \<or> (fst c \<notin> fst ` set zb \<and> snd c = census_cells p @ replicate w Missing))"
  proof
    fix c assume "c \<in> set (census_with_boundaries census_df shapefile)"
    then have "c \<in> set (left_merge w (census_table census_df) zb)"
      by (simp only: C)
    from left_merge_sound [OF this] obtain row where
      row: "row \<in> set (census_table census_df)" "fst c = fst row" and
      cells: "(\<exists>m\<in>set zb. fst m = fst row \<and> snd c = snd row @ snd m)
              \<or> (fst row \<notin> fst ` set zb \<and> snd c = snd row @ replicate w Missing)"
      by blast
    from census_table_row [OF row(1)] obtain p where
      p: "p \<in> set census_df" "row = (pZIP_Code p, census_cells p)"
      by blast
    with row(2) cells
    have "fst c = pZIP_Code p
            \<and> ((\<exists>b\<in>set zb. fst b = fst c \<and> snd c = census_cells p @ snd b)
               \<or> (fst c \<notin> fst ` set zb \<and> snd c = census_cells p @ replicate w Missing))"
      by simp
    with p(1) show "\<exists>p\<in>set census_df. fst c = pZIP_Code p
            \<and> ((\<exists>b\<in>set zb. fst b = fst c \<and> snd c = census_cells p @ snd b)
               \<or> (fst c \<notin> fst ` set zb \<and> snd c = census_cells p @ replicate w Missing))"
      by blast
  qed
  from 1 2 3 show ?thesis
    by blast
qed

lemma zip_location_summary_cells:
  "\<forall>s\<in>set (zip_location_summary location_df).
      snd s = [Number (Fin (of_nat (length (stores_in_zip (fst s) location_df)))),
               Counts (count_store_chains (map lChain_Name (stores_in_zip (fst s) location_df))),
               Number (mean_skipna (map lLatitude (stores_in_zip (fst s) location_df))),
               Number (mean_skipna (map lLongitude (stores_in_zip (fst s) location_df)))]"
  by (auto simp: zip_location_summary_def Let_def)

lemma zip_location_summary_two_stores:
  "zip_location_summary [store_45202, store_10001] =
     [(''10001'', [Number (Fin 1), Counts [(''KROGER'', 1)], Number (Fin (391 / 10)),
                   Number (Fin (- 845 / 10))]),
      (''45202'', [Number (Fin 1), Counts [(''KROGER'', 1)], Number (Fin (391 / 10)),
                   Number (Fin (- 845 / 10))])]"
  by (simp add: zip_location_summary_def store_45202_def store_10001_def stores_in_zip_def
        count_store_chains_def mean_skipna_def)

lemma sample_census_rows:
  "sample_census_df = [process_census_row census_00601, process_census_row census_45202]"
  "pZIP_Code (process_census_row census_00601) = ''00601''"
  "pZIP_Code (process_census_row census_45202) = ''45202''"
  by (simp_all add: sample_census_df_def process_census_data_def process_census_row_def
        census_45202_def census_00601_def)

text \<open>
  C2 (amended): step (a) is a left join anchored on the census table: the table keeps
  exactly the ZIP codes of the census rows, and every census row carries the cells of
  each boundary row of its ZIP code, or missing cells when the shapefile has none (with
  no shapefile the census table is left as it is). Step (b) is a left join anchored on
  the per-ZIP location summary (store count, chain distribution, mean coordinates), with
  the census table of step (a) joined onto it: the result has exactly the ZIP codes of
  the location summary, which are the ZIP codes of the stores; every location-summary
  row is preserved and carries the cells of the census row of its ZIP code, or missing
  cells when the census table has none; every row of the result is of one of these two
  kinds; and a census row whose ZIP code has no store has no row in the result.
\<close>

theorem zip_joins_amended:
  "set (map fst (census_with_boundaries census_df shapefile)) = set (map pZIP_Code census_df)
   \<and> (shapefile = None \<longrightarrow> census_with_boundaries census_df shapefile = census_table census_df)
   \<and> (\<forall>w zb. shapefile = Some (w, zb) \<longrightarrow>
         (\<forall>p\<in>set census_df. \<forall>b\<in>set zb. fst b = pZIP_Code p \<longrightarrow>
            (pZIP_Code p, census_cells p @ snd b) \<in> set (census_with_boundaries census_df shapefile))
       \<and> (\<forall>p\<in>set census_df. pZIP_Code p \<notin> fst ` set zb \<longrightarrow>
            (pZIP_Code p, census_cells p @ replicate w Missing) \<in> set (census_with_boundaries census_df shapefile))
       \<and> (\<forall>c\<in>set (census_with_boundaries census_df shapefile). \<exists>p\<in>set census_df. fst c = pZIP_Code p
            \<and> ((\<exists>b\<in>set zb. fst b = fst c \<and> snd c = census_cells p @ snd b)
               \<or> (fst c \<notin> fst ` set zb \<and> snd c = census_cells p @ replicate w Missing))))
   \<and> set (map fst (zip_location_summary location_df)) = {z. Some z \<in> lZIP_Code ` set location_df}
   \<and> (\<forall>s\<in>set (zip_location_summary location_df).
         snd s = [Number (Fin (of_nat (length (stores_in_zip (fst s) location_df)))),
                  Counts (count_store_chains (map lChain_Name (stores_in_zip (fst s) location_df))),
                  Number (mean_skipna (map lLatitude (stores_in_zip (fst s) location_df))),
                  Number (mean_skipna (map lLongitude (stores_in_zip (fst s) location_df)))])
   \<and> set (map fst (zip_location_census location_df census_df shapefile)) = set (map fst (zip_location_summary location_df))
   \<and> (\<forall>s\<in>set (zip_location_summary location_df). \<forall>c\<in>set (census_with_boundaries census_df shapefile). fst c = fst s \<longrightarrow>
         (fst s, snd s @ snd c) \<in> set (zip_location_census location_df census_df shapefile))
   \<and> (\<forall>s\<in>set (zip_location_summary location_df). fst s \<notin> fst ` set (census_with_boundaries census_df shapefile) \<longrightarrow>
         (fst s, snd s @ replicate (census_width shapefile) Missing) \<in> set (zip_location_census location_df census_df shapefile))
   \<and> (\<forall>r\<in>set (zip_location_census location_df census_df shapefile). \<exists>s\<in>set (zip_location_summary location_df). fst r = fst s
         \<and> ((\<exists>c\<in>set (census_with_boundaries census_df shapefile). fst c = fst s \<and> snd r = snd s @ snd c)
            \<or> (fst s \<notin> fst ` set (census_with_boundaries census_df shapefile)
                \<and> snd r = snd s @ replicate (census_width shapefile) Missing)))
   \<and> (\<forall>p\<in>set census_df. Some (pZIP_Code p) \<notin> lZIP_Code ` set location_df \<longrightarrow>
         pZIP_Code p \<notin> set (map fst (zip_location_census location_df census_df shapefile)))"
proof -
  have a0: "set (map fst (census_with_boundaries census_df shapefile)) = set (map pZIP_Code census_df)"
    by (rule census_with_boundaries_zips)
  have a1: "shapefile = None \<longrightarrow> census_with_boundaries census_df shapefile = census_table census_df"
    by (simp add: census_with_boundaries_def)
  have a2: "\<forall>w zb. shapefile = Some (w, zb) \<longrightarrow>
         (\<forall>p\<in>set census_df. \<forall>b\<in>set zb. fst b = pZIP_Code p \<longrightarrow>
            (pZIP_Code p, census_cells p @ snd b) \<in> set (census_with_boundaries census_df shapefile))
       \<and> (\<forall>p\<in>set census_df. pZIP_Code p \<notin> fst ` set zb \<longrightarrow>
            (pZIP_Code p, census_cells p @ replicate w Missing) \<in> set (census_with_boundaries census_df shapefile))
       \<and> (\<forall>c\<in>set (census_with_boundaries census_df shapefile). \<exists>p\<in>set census_df. fst c = pZIP_Code p
            \<and> ((\<exists>b\<in>set zb. fst b = fst c \<and> snd c = census_cells p @ snd b)
               \<or> (fst c \<notin> fst ` set zb \<and> snd c = census_cells p @ replicate w Missing)))"
    using census_boundaries_joined by blast
  have s0: "set (map fst (zip_location_summary location_df)) = {z. Some z \<in> lZIP_Code ` set location_df}"
    by (rule zip_location_summary_zips)
  have b0: "set (map fst (zip_location_census location_df census_df shapefile)) = set (map fst (zip_location_summary location_df))"
    unfolding zip_location_census_def by (rule left_merge_zips)
  have b1: "\<forall>s\<in>set (zip_location_summary location_df). \<forall>c\<in>set (census_with_boundaries census_df shapefile). fst c = fst s \<longrightarrow>
         (fst s, snd s @ snd c) \<in> set (zip_location_census location_df census_df shapefile)"
    unfolding zip_location_census_def by (blast intro: left_merge_matched)
  have b2: "\<forall>s\<in>set (zip_location_summary location_df). fst s \<notin> fst ` set (census_with_boundaries census_df shapefile) \<longrightarrow>
         (fst s, snd s @ replicate (census_width shapefile) Missing) \<in> set (zip_location_census location_df census_df shapefile)"
    unfolding zip_location_census_def by (blast intro: left_merge_unmatched)
  have b3: "\<forall>r\<in>set (zip_location_census location_df census_df shapefile). \<exists>s\<in>set (zip_location_summary location_df). fst r = fst s
         \<and> ((\<exists>c\<in>set (census_with_boundaries census_df shapefile). fst c = fst s \<and> snd r = snd s @ snd c)
            \<or> (fst s \<notin> fst ` set (census_with_boundaries census_df shapefile)
                \<and> snd r = snd s @ replicate (census_width shapefile) Missing))"
    unfolding zip_location_census_def by (blast dest: left_merge_sound)
  have b5: "\<forall>p\<in>set census_df. Some (pZIP_Code p) \<notin> lZIP_Code ` set location_df \<longrightarrow>
         pZIP_Code p \<notin> set (map fst (zip_location_census location_df census_df shapefile))"
    unfolding b0 s0 by simp
  from a0 a1 a2 s0 zip_location_summary_cells b0 b1 b2 b3 b5 show ?thesis
    by (intro conjI)
qed

theorem zip_joins_amended_witness:
  "(''45202'', census_cells (process_census_row census_45202) @ [Geometry 45202])
     \<in> set (census_with_boundaries sample_census_df sample_shapefile)
   \<and> (''45202'', [Number (Fin 1), Counts [(''KROGER'', 1)], Number (Fin (391 / 10)),
                   Number (Fin (- 845 / 10))]
                  @ census_cells (process_census_row census_45202) @ [Geometry 45202])
     \<in> set (zip_location_census [store_45202, store_10001] sample_census_df sample_shapefile)
   \<and> (''10001'', [Number (Fin 1), Counts [(''KROGER'', 1)], Number (Fin (391 / 10)),
                   Number (Fin (- 845 / 10))] @ replicate 15 Missing)
     \<in> set (zip_location_census [store_45202, store_10001] sample_census_df sample_shapefile)
   \<and> ''00601'' \<notin> set (map fst (zip_location_census [store_45202, store_10001]
                                  sample_census_df sample_shapefile))
   \<and> census_with_boundaries sample_census_df None = census_table sample_census_df
   \<and> (''00601'', census_cells (process_census_row census_00601) @ replicate 1 Missing)
     \<in> set (census_with_boundaries sample_census_df partial_shapefile)"
proof -
  let ?stores = "[store_45202, store_10001]"
  let ?cells = "[Number (Fin 1), Counts [(''KROGER'', 1)], Number (Fin (391 / 10)),
                 Number (Fin (- 845 / 10))]"
  let ?C = "census_with_boundaries sample_census_df sample_shapefile"
  let ?R = "zip_location_census ?stores sample_census_df sample_shapefile"
  let ?S = "zip_location_summary ?stores"
  note full = zip_joins_amended [of sample_census_df sample_shapefile ?stores]
  note none = zip_joins_amended [of sample_census_df None ?stores]
  note part = zip_joins_amended [of sample_census_df partial_shapefile ?stores]
  note a0 = full [THEN conjunct1]
  note a2 = full [THEN conjunct2, THEN conjunct2, THEN conjunct1, rule_format]
  note b1 = full [THEN conjunct2, THEN conjunct2, THEN conjunct2, THEN conjunct2,
      THEN conjunct2, THEN conjunct2, THEN conjunct1, rule_format]
  note b2 = full [THEN conjunct2, THEN conjunct2, THEN conjunct2, THEN conjunct2,
      THEN conjunct2, THEN conjunct2, THEN conjunct2, THEN conjunct1, rule_format]
  note b5 = full [THEN conjunct2, THEN conjunct2, THEN conjunct2, THEN conjunct2,
      THEN conjunct2, THEN conjunct2, THEN conjunct2, THEN conjunct2, THEN conjunct2,
      rule_format]
  have p45: "process_census_row census_45202 \<in> set sample_census_df"
    and p06: "process_census_row census_00601 \<in> set sample_census_df"
    by (simp_all add: sample_census_rows(1))
  have shp: "sample_shapefile = Some (1, [(''00601'', [Geometry 601]), (''45202'', [Geometry 45202])])"
    by (simp add: sample_shapefile_def)
  have s45: "(''45202'', ?cells) \<in> set ?S" and s10: "(''10001'', ?cells) \<in> set ?S"
    by (simp_all add: zip_location_summary_two_stores)
  have width: "census_width sample_shapefile = 15"
    by (simp add: census_width_def sample_shapefile_def)
  have b45: "(''45202'', [Geometry 45202]) \<in> set [(''00601'', [Geometry 601]), (''45202'', [Geometry 45202])]"
    by simp
  have "(pZIP_Code (process_census_row census_45202),
          census_cells (process_census_row census_45202) @ snd (''45202'', [Geometry 45202])) \<in> set ?C"
    by (rule a2 [OF shp, THEN conjunct1, rule_format, OF p45 b45])
       (simp add: sample_census_rows(3))
  then have 1: "(''45202'', census_cells (process_census_row census_45202) @ [Geometry 45202]) \<in> set ?C"
    by (simp only: sample_census_rows(3) snd_conv)
  have "(fst (''45202'', ?cells),
         snd (''45202'', ?cells)
           @ snd (''45202'', census_cells (process_census_row census_45202) @ [Geometry 45202])) \<in> set ?R"
    by (rule b1 [OF s45 1]) (simp only: fst_conv)
  then have 2: "(''45202'', ?cells @ census_cells (process_census_row census_45202) @ [Geometry 45202]) \<in> set ?R"
    by (simp only: fst_conv snd_conv)
  from a0 have "fst ` set ?C = set (map pZIP_Code sample_census_df)"
    by (simp only: set_map)
  then have zips: "fst ` set ?C = {''00601'', ''45202''}"
    by (simp add: sample_census_rows)
  have "(fst (''10001'', ?cells),
         snd (''10001'', ?cells) @ replicate (census_width sample_shapefile) Missing) \<in> set ?R"
    by (rule b2 [OF s10]) (simp only: zips fst_conv, simp)
  then have 3: "(''10001'', ?cells @ replicate 15 Missing) \<in> set ?R"
    by (simp only: fst_conv snd_conv width)
  have nostore: "Some (pZIP_Code (process_census_row census_00601)) \<notin> lZIP_Code ` set ?stores"
    by (simp add: sample_census_rows(2) store_45202_def store_10001_def)
  from b5 [OF p06 nostore] have 4: "''00601'' \<notin> set (map fst ?R)"
    unfolding sample_census_rows(2) .
  from none [THEN conjunct2, THEN conjunct1]
  have 5: "census_with_boundaries sample_census_df None = census_table sample_census_df"
    by simp
  have "pZIP_Code (process_census_row census_00601) \<notin> fst ` set [(''45202'', [Geometry 45202])]"
    by (simp add: sample_census_rows(2))
  from part [THEN conjunct2, THEN conjunct2, THEN conjunct1, rule_format,
      OF partial_shapefile_def, THEN conjunct2, THEN conjunct1, rule_format, OF p06 this]
  have 6: "(''00601'', census_cells (process_census_row census_00601) @ replicate 1 Missing)
             \<in> set (census_with_boundaries sample_census_df partial_shapefile)"
    by (simp only: sample_census_rows(2))
  from 1 2 3 4 5 6 show ?thesis
    by (intro conjI)
qed

lemma complete_two_stores:
  "zip_product_location_complete [store_45202, store_10001] sample_census_df sample_shapefile
     sample_zip_product_complete =
   [(''10001'', [Number (Fin 1), Counts [(''KROGER'', 1)], Number (Fin (391 / 10)),
                 Number (Fin (- 845 / 10))] @ replicate 15 Missing @ replicate 9 Missing),
    (''45202'', [Number (Fin 1), Counts [(''KROGER'', 1)], Number (Fin (391 / 10)),
                 Number (Fin (- 845 / 10))]
                 @ census_cells (process_census_row census_45202) @ [Geometry 45202]
                 @ snd (hd sample_zip_product_complete))]"
  by (simp add: zip_product_location_complete_def zip_location_census_def left_merge_def
        merge_row_def census_with_boundaries_def census_width_def sample_shapefile_def
        sample_census_zips zip_location_summary_two_stores sample_zip_product_complete_def)

lemma census_cells_present: "\<not> list_ex isna (census_cells (process_census_row census_45202))"
  by (simp add: census_cells_def percentage_fields_def process_census_row_def census_45202_def
        census_00601_def isna_def fillna0_def)

text \<open>
  C9: every row of the final table has a value in every column. The final table is
  \<open>dropna\<close> of the last left join, and a row of that join is in the final table exactly
  when none of its cells is missing.
\<close>

theorem final_table_complete:
  "(\<forall>row\<in>set (zip_product_location_filtered location_df census_df shapefile zip_product_complete).
      \<forall>c\<in>set (snd row). \<not> isna c)
   \<and> (\<forall>row\<in>set (zip_product_location_complete location_df census_df shapefile zip_product_complete).
        (row \<in> set (zip_product_location_filtered location_df census_df shapefile zip_product_complete))
          = (\<forall>c\<in>set (snd row). \<not> isna c))"
  by (auto simp: zip_product_location_filtered_def dropna_def list_ex_iff)

theorem final_table_complete_witness:
  "map fst (zip_product_location_complete [store_45202, store_10001] sample_census_df
              sample_shapefile sample_zip_product_complete) = [''10001'', ''45202'']
   \<and> map fst (zip_product_location_filtered [store_45202, store_10001] sample_census_df
                sample_shapefile sample_zip_product_complete) = [''45202'']
   \<and> list_all (\<lambda>row. list_all (\<lambda>c. \<not> isna c) (snd row))
        (zip_product_location_filtered [store_45202, store_10001] sample_census_df
           sample_shapefile sample_zip_product_complete)"
proof -
  let ?complete = "zip_product_location_complete [store_45202, store_10001] sample_census_df
                     sample_shapefile sample_zip_product_complete"
  let ?filtered = "zip_product_location_filtered [store_45202, store_10001] sample_census_df
                     sample_shapefile sample_zip_product_complete"
  have 1: "map fst ?complete = [''10001'', ''45202'']"
    by (simp add: complete_two_stores)
  have 2: "map fst ?filtered = [''45202'']"
    unfolding zip_product_location_filtered_def dropna_def complete_two_stores
    using census_cells_present by (simp add: list_ex_iff isna_def sample_zip_product_complete_def)
  from final_table_complete [of "[store_45202, store_10001]" sample_census_df sample_shapefile
      sample_zip_product_complete]
  have "\<forall>row\<in>set ?filtered. \<forall>c\<in>set (snd row). \<not> isna c"
    by blast
  then have 3: "list_all (\<lambda>row. list_all (\<lambda>c. \<not> isna c) (snd row)) ?filtered"
    by (simp add: list_all_iff)
  from 1 2 3 show ?thesis
    by blast
qed

end
